theory Spec2Isabelle
  imports Complex_Main "HOL-Library.Sublist"
begin

section \<open>Text, characters and the regular expressions of the source\<close>

text \<open>
  JavaScript strings are modelled as lists of 8-bit characters, that is, as text whose
  code units are below 256 (Latin-1). JavaScript numbers are modelled as exact rationals:
  the rounding of IEEE doubles is not part of the model.
\<close>

definition code_unit :: "char \<Rightarrow> nat" where
  "code_unit c = of_char c"

text \<open>\<open>String.prototype.toLowerCase\<close> on code units below 256: A-Z and the accented
  capitals U+00C0..U+00DE (without the multiplication sign U+00D7) move up by 32, which
  sets bit 5 of the code unit.\<close>

definition isUpper :: "char \<Rightarrow> bool" where
  "isUpper c = ((65 \<le> code_unit c \<and> code_unit c \<le> 90) \<or>
     (192 \<le> code_unit c \<and> code_unit c \<le> 222 \<and> code_unit c \<noteq> 215))"

definition toLowerCase_char :: "char \<Rightarrow> char" where
  "toLowerCase_char c =
     (if isUpper c
      then (case c of Char b0 b1 b2 b3 b4 b5 b6 b7 \<Rightarrow> Char b0 b1 b2 b3 b4 True b6 b7)
      else c)"

definition toLowerCase :: "string \<Rightarrow> string" where
  "toLowerCase s = map toLowerCase_char s"

text \<open>White space as \<open>\s\<close> and \<open>trim\<close> see it (tab, line feed, vertical tab, form feed,
  carriage return, space, no-break space), and the decimal digits of \<open>\d\<close>.\<close>

definition isSpace :: "char \<Rightarrow> bool" where
  "isSpace c = ((9 \<le> code_unit c \<and> code_unit c \<le> 13) \<or> code_unit c = 32 \<or> code_unit c = 160)"

definition isDigit :: "char \<Rightarrow> bool" where
  "isDigit c = (48 \<le> code_unit c \<and> code_unit c \<le> 57)"

definition trim :: "string \<Rightarrow> string" where
  "trim s = rev (dropWhile isSpace (rev (dropWhile isSpace s)))"

text \<open>\<open>t.includes(k)\<close>: \<open>k\<close> occurs in \<open>t\<close> as a contiguous substring.\<close>

definition str_includes :: "string \<Rightarrow> string \<Rightarrow> bool" where
  "str_includes t k = sublist k t"

text \<open>\<open>/k1|k2|...|kn/.test(s)\<close> for a regular expression that is an alternation of literal
  strings: one of the alternatives occurs in \<open>s\<close>.\<close>

definition regex_test :: "string list \<Rightarrow> string \<Rightarrow> bool" where
  "regex_test alts s = list_ex (\<lambda>k. sublist k s) alts"

text \<open>\<open>xs.join(sep)\<close>.\<close>

fun join :: "string \<Rightarrow> string list \<Rightarrow> string" where
  "join sep [] = []"
| "join sep [x] = x"
| "join sep (x # y # ys) = x @ sep @ join sep (y # ys)"

text \<open>\<open>t.split(' ').length\<close>: one piece more than there are separators.\<close>

definition split_length :: "string \<Rightarrow> nat" where
  "split_length t = Suc (length (filter (\<lambda>c. c = CHR '' '') t))"

section \<open>The tokenizer\<close>

text \<open>
  \<open>clean\<close> calls \<open>tokenizer.tokenize\<close>, the \<open>WordPunctTokenizer\<close> of the third-party package
  \<open>natural\<close>; its source is not part of the repository. The functions of the model take
  the tokenizer as the parameter \<open>tok\<close>, and the theorems that hold for every tokenizer
  are stated so.

  For the evaluations at concrete texts, \<open>wordPunctTokenize\<close> is a model of that
  tokenizer: it splits the text with the pattern
  \<^verbatim>\<open>/([A-Za-z\u00C0-\u00FF-]+|[0-9._]+|.|!|\?|'|"|:|;|,|-)/i\<close>, keeping the separators,
  and drops the empty string and the single space from the pieces. So a token is a
  maximal run of letters and hyphens, or a maximal run of digits, dots and underscores,
  or one other character; a run of line terminators, which the pattern does not match,
  is a piece of its own.
\<close>

definition wordChar :: "char \<Rightarrow> bool" where
  "wordChar c = ((65 \<le> code_unit c \<and> code_unit c \<le> 90) \<or> (97 \<le> code_unit c \<and> code_unit c \<le> 122)
     \<or> 192 \<le> code_unit c \<or> code_unit c = 45)"

definition numChar :: "char \<Rightarrow> bool" where
  "numChar c = (isDigit c \<or> code_unit c = 46 \<or> code_unit c = 95)"

definition lineTerminator :: "char \<Rightarrow> bool" where
  "lineTerminator c = (code_unit c = 10 \<or> code_unit c = 13)"

function wordPunctTokenize :: "string \<Rightarrow> string list" where
  "wordPunctTokenize [] = []"
| "wordPunctTokenize (c # cs) =
     (if wordChar c then (c # takeWhile wordChar cs) # wordPunctTokenize (dropWhile wordChar cs)
      else if numChar c then (c # takeWhile numChar cs) # wordPunctTokenize (dropWhile numChar cs)
      else if lineTerminator c
        then (c # takeWhile lineTerminator cs) # wordPunctTokenize (dropWhile lineTerminator cs)
      else if c = CHR '' '' then wordPunctTokenize cs
      else [c] # wordPunctTokenize cs)"
  by pat_completeness auto
termination
  by (relation "measure length") (auto simp: length_dropWhile_le less_Suc_eq_le)

section \<open>Text normalisation\<close>

definition stopwords :: "string list" where
  "stopwords = [''the'', ''a'', ''an'', ''and'', ''or'', ''but'', ''to'', ''of'', ''in'', ''on'',
     ''for'', ''with'', ''by'', ''at'', ''is'', ''are'', ''be'', ''this'', ''that'', ''it'', ''as'',
     ''from'', ''into'', ''via'', ''over'', ''under'', ''we'', ''i'', ''you'']"

text \<open>The class \<open>[a-z0-9#]\<close>, and the test \<open>/[a-z0-9#]+/.test(t)\<close>: the pattern is not
  anchored, so one character of the class anywhere in the token is enough.\<close>

definition alnumHash :: "char \<Rightarrow> bool" where
  "alnumHash c = ((97 \<le> code_unit c \<and> code_unit c \<le> 122) \<or> isDigit c \<or> code_unit c = 35)"

definition alnumTest :: "string \<Rightarrow> bool" where
  "alnumTest t = list_ex alnumHash t"

text \<open>An absent text (\<open>undefined\<close>) is the empty string: \<open>text || ''\<close>.\<close>

definition clean :: "(string \<Rightarrow> string list) \<Rightarrow> string \<Rightarrow> string" where
  "clean tok text =
     (let lower = toLowerCase text;
          tokens = filter (\<lambda>t. t \<notin> set stopwords) (filter alnumTest (tok lower))
      in join '' '' tokens)"

section \<open>Complexity score, story points, hours\<close>

definition fib :: "nat list" where
  "fib = [1, 2, 3, 5, 8, 13]"

definition complexityKeywords_tiny :: "string list" where
  "complexityKeywords_tiny =
     [''typo'', ''copy'', ''text'', ''docs'', ''readme'', ''color'', ''padding'', ''icon'']"

definition complexityKeywords_small :: "string list" where
  "complexityKeywords_small =
     [''validation'', ''minor'', ''ui'', ''tooltip'', ''css'', ''logging'', ''small'', ''refactor'']"

definition complexityKeywords_medium :: "string list" where
  "complexityKeywords_medium =
     [''api'', ''schema'', ''cache'', ''queue'', ''oauth'', ''retry'', ''pagination'', ''migration'',
      ''feature'']"

definition complexityKeywords_large :: "string list" where
  "complexityKeywords_large =
     [''payment'', ''encryption'', ''security'', ''outage'', ''deadlock'', ''data loss'',
      ''race condition'', ''recovery'', ''multi-tenant'', ''compliance'']"

text \<open>\<open>addIf(list, w)\<close>: \<open>list.forEach(k => { if (t.includes(k)) score += w; })\<close>, with the
  score passed through.\<close>

definition addIf :: "string \<Rightarrow> string list \<Rightarrow> rat \<Rightarrow> rat \<Rightarrow> rat" where
  "addIf t list w score = foldl (\<lambda>s k. if str_includes t k then s + w else s) score list"

definition scoreComplexity :: "(string \<Rightarrow> string list) \<Rightarrow> string \<Rightarrow> rat" where
  "scoreComplexity tok text =
     (let t = clean tok text;
          len = max 1 (split_length t);
          score0 = min 1 (of_nat len / 120);
          score1 = addIf t complexityKeywords_tiny (- (2 / 10)) score0;
          score2 = addIf t complexityKeywords_small (5 / 100) score1;
          score3 = addIf t complexityKeywords_medium (15 / 100) score2;
          score4 = addIf t complexityKeywords_large (35 / 100) score3
      in max 0 (min (15 / 10) score4))"

definition thresholds :: "rat list" where
  "thresholds = [15 / 100, 3 / 10, 5 / 10, 8 / 10, 11 / 10, 15 / 10]"

text \<open>The loop of \<open>toFib\<close> over the index \<open>i\<close>, as a recursion over the thresholds paired
  with the buckets.\<close>

fun toFib_loop :: "rat \<Rightarrow> (rat \<times> nat) list \<Rightarrow> nat" where
  "toFib_loop score [] = 13"
| "toFib_loop score ((th, f) # rest) = (if score \<le> th then f else toFib_loop score rest)"

definition toFib :: "rat \<Rightarrow> nat" where
  "toFib score = toFib_loop score (zip thresholds fib)"

definition base :: "nat \<rightharpoonup> rat" where
  "base = [1 \<mapsto> 4, 2 \<mapsto> 6, 3 \<mapsto> 8, 5 \<mapsto> 16, 8 \<mapsto> 32, 13 \<mapsto> 56]"

definition uncertaintyWords :: "string list" where
  "uncertaintyWords = [''spike'', ''investigate'', ''unknown'', ''legacy'', ''undocumented'']"

definition simplicityWords :: "string list" where
  "simplicityWords = [''well-defined'', ''simple'', ''trivial'', ''straightforward'']"

definition coordinationWords :: "string list" where
  "coordinationWords = [''cross-team'', ''multiple services'', ''coordination'', ''dependency'']"

text \<open>\<open>base[points] || 8\<close>: every entry of the table is non-zero, so the default is taken
  exactly for a key that is missing. \<open>Math.round\<close> is \<open>\<lfloor>x + 1/2\<rfloor>\<close>, which is \<^const>\<open>round\<close>.\<close>

definition estimateHoursFn :: "(string \<Rightarrow> string list) \<Rightarrow> nat \<Rightarrow> string \<Rightarrow> int" where
  "estimateHoursFn tok points text =
     (let hours0 = (case base points of Some h \<Rightarrow> h | None \<Rightarrow> 8);
          t = clean tok text;
          hours1 = (if regex_test uncertaintyWords t then hours0 * (13 / 10) else hours0);
          hours2 = (if regex_test simplicityWords t then hours1 * (8 / 10) else hours1);
          hours3 = (if regex_test coordinationWords t then hours2 * (125 / 100) else hours2)
      in round hours3)"

section \<open>The prediction of one record\<close>

datatype priority = Critical | High | Medium | Low

text \<open>One entry of the classifier's ranking: \<open>{label, value}\<close>.\<close>

type_synonym classification = "priority \<times> rat"

text \<open>
  The model holds the trained classifier of the package \<open>natural\<close>, of which the code calls
  \<open>getClassifications\<close> only. It is a parameter of the model: a function from the normalised
  text to the ranking, highest first, where \<open>None\<close> stands for a call that throws (the
  \<open>catch\<close> of \<open>predictRecord\<close> swallows it).
\<close>

record model =
  getClassifications :: "string \<Rightarrow> classification list option"

record prediction =
  priority :: priority
  storyPoints :: nat
  estimateHours :: int
  confidence :: rat
  rationale :: string

definition priority_name :: "priority \<Rightarrow> string" where
  "priority_name p =
     (case p of Critical \<Rightarrow> ''Critical'' | High \<Rightarrow> ''High'' | Medium \<Rightarrow> ''Medium'' | Low \<Rightarrow> ''Low'')"

text \<open>Decimal rendering of the integers a template literal interpolates.\<close>

function showNat :: "nat \<Rightarrow> string" where
  "showNat n =
     (if n < 10 then [''0123456789'' ! n] else showNat (n div 10) @ [''0123456789'' ! (n mod 10)])"
  by pat_completeness auto
termination
  by (relation "measure id") auto

declare showNat.simps [simp del]

definition showInt :: "int \<Rightarrow> string" where
  "showInt i = (if i < 0 then CHR ''-'' # showNat (nat (- i)) else showNat (nat i))"

text \<open>\<open>Number(x.toFixed(2))\<close>: the multiple of 1/100 nearest to \<open>x\<close>, the larger one on a
  tie, computed on the absolute value.\<close>

definition toFixed2 :: "rat \<Rightarrow> rat" where
  "toFixed2 x =
     (if x < 0 then - (of_int (round (100 * (- x))) / 100) else of_int (round (100 * x)) / 100)"

text \<open>The array \<open>cues\<close> of \<open>buildRationale\<close> after its five conditional pushes.\<close>

definition rationaleCues :: "string \<Rightarrow> string list" where
  "rationaleCues raw =
     (let cues0 = [];
          cues1 = (if regex_test [''outage'', ''down'', ''unreachable''] raw
                   then cues0 @ [''service outage''] else cues0);
          cues2 = (if regex_test [''security'', ''breach'', ''encryption''] raw
                   then cues1 @ [''security risk''] else cues1);
          cues3 = (if regex_test [''payment'', ''checkout''] raw
                   then cues2 @ [''revenue impact''] else cues2);
          cues4 = (if regex_test [''typo'', ''copy'', ''color'', ''css''] raw
                   then cues3 @ [''cosmetic''] else cues3);
          cues5 = (if regex_test [''migration'', ''schema'', ''api'', ''integration''] raw
                   then cues4 @ [''system integration''] else cues4)
      in cues5)"

text \<open>\<open>cues.join(', ') || 'general classification'\<close>: the joined text is empty exactly when
  there is no cue.\<close>

definition buildRationale :: "priority \<Rightarrow> nat \<Rightarrow> int \<Rightarrow> string \<Rightarrow> string" where
  "buildRationale prio sp hours raw =
     (let joined = join '', '' (rationaleCues raw)
      in ''Priority '' @ priority_name prio @ '' based on cues: ''
         @ (if joined = [] then ''general classification'' else joined)
         @ ''. Story Points ~'' @ showNat sp @ '', Est ~'' @ showInt hours @ ''h.'')"

definition emergencyWords :: "string list" where
  "emergencyWords = [''sev1'', ''p0'', ''outage'', ''down'', ''cannot login'', ''payment failed'',
     ''data loss'', ''security'', ''breach'']"

definition defaultPrediction :: prediction where
  "defaultPrediction =
     \<lparr>priority = Low, storyPoints = 1, estimateHours = 4, confidence = 4 / 10,
      rationale = ''No text provided. Falling back to conservative defaults.''\<rparr>"

text \<open>
  The \<open>try\<close> block of \<open>predictRecord\<close>: the defaults \<open>Medium\<close> and \<open>0.6\<close> stay when the call
  throws or the ranking is empty. \<open>classifications[1]?.value || 1e-9\<close> takes \<open>1e-9\<close> when
  there is no second entry or its value is zero. A division by zero gives an infinity in
  JavaScript, which the clamp turns into one of its bounds; the numerator is not zero
  there, because the second value is never zero.
\<close>

definition classify :: "model \<Rightarrow> string \<Rightarrow> priority \<times> rat" where
  "classify m content =
     (case getClassifications m content of
        None \<Rightarrow> (Medium, 6 / 10)
      | Some [] \<Rightarrow> (Medium, 6 / 10)
      | Some ((label, topv) # rest) \<Rightarrow>
          (let second = (case rest of [] \<Rightarrow> 1 / 10 ^ 9
                         | (l2, v2) # others \<Rightarrow> if v2 = 0 then 1 / 10 ^ 9 else v2)
           in (label,
               if topv + second = 0 then (if 0 < topv then 99 / 100 else 5 / 10)
               else max (5 / 10) (min (99 / 100) (topv / (topv + second))))))"

definition predictRecord :: "(string \<Rightarrow> string list) \<Rightarrow> model \<Rightarrow> string \<Rightarrow> prediction" where
  "predictRecord tok m text =
     (let content = clean tok text in
      if content = [] then defaultPrediction
      else
        let (priority0, confidence0) = classify m content;
            raw = toLowerCase text;
            (priority1, confidence1) =
               (if regex_test emergencyWords raw then (Critical, max confidence0 (85 / 100))
                else (priority0, confidence0));
            cScore = scoreComplexity tok text;
            sp = toFib cScore;
            hours = estimateHoursFn tok sp text
        in \<lparr>priority = priority1, storyPoints = sp, estimateHours = hours,
            confidence = toFixed2 confidence1,
            rationale = buildRationale priority1 sp hours raw\<rparr>)"

section \<open>The server: prediction of a batch and the chat\<close>

record dataset_row =
  Row :: nat
  Summary :: string
  Description :: string
  Priority :: priority
  StoryPoints :: nat
  EstimateHours :: int
  Confidence :: rat
  Rationale :: string

text \<open>A parsed CSV record is an object from column names to strings.
  \<open>row['Summary'] ?? row['summary'] ?? ''\<close> takes the first column that is present.\<close>

definition column :: "(string \<rightharpoonup> string) \<Rightarrow> string \<Rightarrow> string \<Rightarrow> string" where
  "column row k1 k2 =
     (case row k1 of Some v \<Rightarrow> v | None \<Rightarrow> (case row k2 of Some v \<Rightarrow> v | None \<Rightarrow> []))"

definition recordText :: "(string \<rightharpoonup> string) \<Rightarrow> string" where
  "recordText row =
     trim (column row ''Summary'' ''summary'' @ [CHR 0x0A] @ column row ''Description'' ''description'')"

definition predictRow ::
  "(string \<Rightarrow> string list) \<Rightarrow> model \<Rightarrow> nat \<Rightarrow> (string \<rightharpoonup> string) \<Rightarrow> dataset_row" where
  "predictRow tok m idx row =
     (let result = predictRecord tok m (recordText row)
      in \<lparr>Row = idx + 1,
          Summary = column row ''Summary'' ''summary'',
          Description = column row ''Description'' ''description'',
          Priority = priority result,
          StoryPoints = storyPoints result,
          EstimateHours = estimateHours result,
          Confidence = confidence result,
          Rationale = rationale result\<rparr>)"

definition predictBatch ::
  "(string \<Rightarrow> string list) \<Rightarrow> model \<Rightarrow> (string \<rightharpoonup> string) list \<Rightarrow> dataset_row list" where
  "predictBatch tok m records = map (\<lambda>(idx, row). predictRow tok m idx row) (enumerate 0 records)"

text \<open>\<open>summarizeDataset\<close>: the counts are an object whose keys keep the order in which they
  were first written.\<close>

fun countPriority :: "(priority \<times> nat) list \<Rightarrow> priority \<Rightarrow> (priority \<times> nat) list" where
  "countPriority [] p = [(p, 1)]"
| "countPriority ((q, n) # acc) p =
     (if q = p then (q, n + 1) # acc else (q, n) # countPriority acc p)"

definition avg :: "rat list \<Rightarrow> rat" where
  "avg arr = foldl (+) 0 arr / of_nat (max 1 (length arr))"

record summary =
  priorityCounts :: "(priority \<times> nat) list"
  avgStoryPoints :: rat
  avgHours :: rat

definition summarizeDataset :: "dataset_row list \<Rightarrow> summary" where
  "summarizeDataset data =
     \<lparr>priorityCounts = foldl (\<lambda>acc r. countPriority acc (Priority r)) [] data,
      avgStoryPoints = avg (map (\<lambda>r. of_nat (StoryPoints r)) data),
      avgHours = avg (map (\<lambda>r. of_int (EstimateHours r)) data)\<rparr>"

definition priorityRank :: "priority \<Rightarrow> int" where
  "priorityRank p = (case p of Critical \<Rightarrow> 4 | High \<Rightarrow> 3 | Medium \<Rightarrow> 2 | Low \<Rightarrow> 1)"

text \<open>The comparator of the "top risky" sort, and the sort itself: \<open>Array.prototype.sort\<close> is
  stable, so rows that compare equal keep their order.\<close>

definition riskCompare :: "dataset_row \<Rightarrow> dataset_row \<Rightarrow> rat" where
  "riskCompare a b =
     (let d = of_int (priorityRank (Priority b) - priorityRank (Priority a))
      in if d \<noteq> 0 then d else Confidence b - Confidence a)"

fun insertRow :: "dataset_row \<Rightarrow> dataset_row list \<Rightarrow> dataset_row list" where
  "insertRow r [] = [r]"
| "insertRow r (x # xs) = (if riskCompare r x \<le> 0 then r # x # xs else x # insertRow r xs)"

definition sortRows :: "dataset_row list \<Rightarrow> dataset_row list" where
  "sortRows data = foldr insertRow data []"

text \<open>
  The replies of the chat. A reply is represented by the intent that produced it and the
  values its text is built from; the rendering of numbers into that text is not modelled.
  \<^item> \<open>NoDatasetReply\<close>: "No dataset loaded yet. Please upload a CSV first. ..."
  \<^item> \<open>ExplainReply row\<close>: \<open>explainPrediction(row)\<close>
  \<^item> \<open>DistributionReply counts sp h\<close>: the priority counts and the two averages
  \<^item> \<open>HelpReply\<close>: "You can ask: ..."
  \<^item> \<open>TopRiskyReply rows\<close>: one line for each of the rows
  \<^item> \<open>AverageReply sp h\<close>: the two averages
  \<^item> \<open>FallbackReply\<close>: "I can help with distribution, averages, and explaining rows. ..."
  \<open>BadRequest\<close> is the status 400 with the error "Message is required."
\<close>

datatype reply =
    NoDatasetReply
  | ExplainReply dataset_row
  | DistributionReply "(priority \<times> nat) list" rat rat
  | HelpReply
  | TopRiskyReply "dataset_row list"
  | AverageReply rat rat
  | FallbackReply

datatype response = BadRequest | Reply reply

text \<open>
  \<open>msg.match(/why\s+(?:row|record|id)?\s*(\d+)/)\<close>. \<open>matchWhyAt s\<close> matches the pattern at the
  start of \<open>s\<close> and returns the digits of the group: after \<open>why\<close> and at least one white
  space character comes either a run of digits, or one of the three words, optional white
  space and a run of digits; the group is greedy, so it takes the whole run. Giving white
  space back to \<open>\s*\<close> or skipping the optional word leads to no other match.
  \<open>whyMatch\<close> is the leftmost match.
\<close>

definition matchWhyAt :: "string \<Rightarrow> string option" where
  "matchWhyAt s =
     (if prefix ''why'' s then
        (let r1 = drop 3 s in
         if r1 \<noteq> [] \<and> isSpace (hd r1) then
           (let r2 = dropWhile isSpace r1;
                r3 = (if prefix ''row'' r2 then drop 3 r2
                      else if prefix ''record'' r2 then drop 6 r2
                      else if prefix ''id'' r2 then drop 2 r2
                      else r2);
                r4 = dropWhile isSpace r3;
                ds = takeWhile isDigit r4
            in if ds = [] then None else Some ds)
         else None)
      else None)"

fun whyMatch :: "string \<Rightarrow> string option" where
  "whyMatch [] = None"
| "whyMatch (c # cs) =
     (case matchWhyAt (c # cs) of Some ds \<Rightarrow> Some ds | None \<Rightarrow> whyMatch cs)"

text \<open>\<open>parseInt(ds, 10)\<close> on a run of decimal digits.\<close>

definition parseInt :: "string \<Rightarrow> int" where
  "parseInt ds = foldl (\<lambda>n c. 10 * n + (int (code_unit c) - 48)) 0 ds"

text \<open>The intents after "why", in the order of the source.\<close>

definition laterIntents :: "dataset_row list \<Rightarrow> string \<Rightarrow> reply" where
  "laterIntents lastDataset msg =
     (if regex_test [''distribution'', ''count'', ''how many'', ''breakdown'', ''summary of priority''] msg
      then (let s = summarizeDataset lastDataset
            in DistributionReply (priorityCounts s) (avgStoryPoints s) (avgHours s))
      else if regex_test [''help'', ''what can you do'', ''commands'', ''options''] msg
      then HelpReply
      else if regex_test [''top risky'', ''highest priority'', ''critical''] msg
      then (let sorted = sortRows lastDataset
            in TopRiskyReply (take (min 5 (length sorted)) sorted))
      else if regex_test [''average'', ''avg''] msg
      then (let s = summarizeDataset lastDataset in AverageReply (avgStoryPoints s) (avgHours s))
      else FallbackReply)"

text \<open>The handler of \<open>/api/chat\<close>. The message is \<open>None\<close> when the body has none or it is not
  a string.\<close>

definition chat :: "dataset_row list \<Rightarrow> string option \<Rightarrow> response" where
  "chat lastDataset message =
     (case message of
        None \<Rightarrow> BadRequest
      | Some text \<Rightarrow>
          if text = [] \<or> length (trim text) < 2 then BadRequest
          else
            (let msg = toLowerCase text in
             if lastDataset = [] then Reply NoDatasetReply
             else
               (case whyMatch msg of
                  Some ds \<Rightarrow>
                    (let idx = parseInt ds - 1 in
                     if 0 \<le> idx \<and> idx < int (length lastDataset)
                     then Reply (ExplainReply (lastDataset ! nat idx))
                     else Reply (laterIntents lastDataset msg))
                | None \<Rightarrow> Reply (laterIntents lastDataset msg))))"

section \<open>Stub classifiers\<close>

text \<open>A stub classifier that returns one fixed ranking for every text, and one whose call
  always throws: the concrete models of the evaluations below.\<close>

definition constantModel :: "classification list \<Rightarrow> model" where
  "constantModel ranking = \<lparr>getClassifications = (\<lambda>content. Some ranking)\<rparr>"

definition throwingModel :: model where
  "throwingModel = \<lparr>getClassifications = (\<lambda>content. None)\<rparr>"

text \<open>The text of the payment scenario.\<close>

definition paymentText :: string where
  "paymentText = ''Payment gateway failing checkout blocked for all customers''"

section \<open>The trained classifier on the payment text\<close>

text \<open>
  The classifier of the program is the \<open>BayesClassifier\<close> of the package \<open>natural\<close>, trained
  by \<open>trainPriorityClassifier\<close> from the phrases of \<open>seeds()\<close>. For a text it gives every
  label the value prior times the product, over the stems of the text that the vocabulary
  has, of count / total, where count is 1 (the smoothing) plus the number of seed phrases
  of the label that have the stem. Every label has five phrases, so prior and total are
  the same for the four labels, and the values are a common positive factor \<open>c\<close> times
  the product of the counts.

  The normalised payment text has six stems in the vocabulary, those of the words payment,
  gateway, failing, checkout, blocked and customers; a seed phrase has one of them exactly
  when it contains the letters listed in \<open>paymentStems\<close>. \<open>paymentRanking c\<close> is the
  ranking that results, in the order of the labels, which is highest first.
\<close>

definition seeds :: "(priority \<times> string list) list" where
  "seeds =
     [(Critical,
        [''production outage critical sev1 service down multiple customers cannot login 500 error'',
         ''security breach data leak pii exposed urgent incident'',
         ''payment gateway failing checkout blocked revenue impact'',
         ''data loss corruption cannot recover backups failing'',
         ''deadlock crash on startup app unusable after update'']),
      (High,
        [''performance degradation slow response timeout frequent errors spike'',
         ''api failing intermittently flaky retries required'',
         ''priority customer blocked cannot complete workflow'',
         ''migration deadline approaching key dependency broken'',
         ''compliance issue needs fix before release'']),
      (Medium,
        [''feature enhancement add filter sorting column'',
         ''ui bug misaligned button typography issue minor'',
         ''edge case validation error specific inputs'',
         ''refactor module cleanup improve maintainability'',
         ''add logging metrics monitoring'']),
      (Low,
        [''cosmetic request color change microcopy tweak'',
         ''documentation update readme faq add examples'',
         ''typo fix grammar correction'',
         ''small improvement non urgent backlog'',
         ''developer tooling dx polish''])]"

definition paymentStems :: "string list" where
  "paymentStems = [''payment'', ''gateway'', ''fail'', ''checkout'', ''block'', ''custom'']"

definition stemCount :: "string list \<Rightarrow> string \<Rightarrow> nat" where
  "stemCount phrases stem =
     1 + length (filter (sublist stem) phrases)"

definition paymentRanking :: "rat \<Rightarrow> classification list" where
  "paymentRanking c =
     map (\<lambda>(label, phrases). (label, c * of_nat (prod_list (map (stemCount phrases) paymentStems))))
       seeds"

section \<open>Definitions for the statement of the complexity score\<close>

text \<open>The number of keywords of a list that occur in the normalised text.\<close>

definition keywordHits :: "string \<Rightarrow> string list \<Rightarrow> nat" where
  "keywordHits t list = length (filter (str_includes t) list)"

text \<open>The score as the claim words it: each keyword set adds its weight once when any of
  its keywords occurs.\<close>

definition scoreComplexity_once :: "(string \<Rightarrow> string list) \<Rightarrow> string \<Rightarrow> rat" where
  "scoreComplexity_once tok text =
     (let t = clean tok text;
          len = max 1 (split_length t);
          score0 = min 1 (of_nat len / 120);
          score1 = (if list_ex (str_includes t) complexityKeywords_tiny then score0 - 2 / 10 else score0);
          score2 = (if list_ex (str_includes t) complexityKeywords_small then score1 + 5 / 100 else score1);
          score3 = (if list_ex (str_includes t) complexityKeywords_medium then score2 + 15 / 100 else score2);
          score4 = (if list_ex (str_includes t) complexityKeywords_large then score3 + 35 / 100 else score3)
      in max 0 (min (15 / 10) score4))"

text \<open>A dataset of three rows, predicted from three records: the first gets Critical from
  the emergency override, the second the fixed result of an empty normalised text, the
  third the ranking of the classifier.\<close>

definition exampleDataset :: "dataset_row list" where
  "exampleDataset = predictBatch wordPunctTokenize (constantModel [(High, 3 / 4), (Medium, 1 / 4)])
     [[''Summary'' \<mapsto> ''Service down'', ''Description'' \<mapsto> ''Users cannot login after update''],
      [''Summary'' \<mapsto> ''the''],
      [''Summary'' \<mapsto> ''UI button misaligned'', ''Description'' \<mapsto> ''Minor CSS fix needed'']]"

section \<open>Properties\<close>

lemma toFib_cases:
  "toFib s = (if s \<le> 15/100 then 1 else if s \<le> 3/10 then 2 else if s \<le> 5/10 then 3
     else if s \<le> 8/10 then 5 else if s \<le> 11/10 then 8 else 13)"
  by (simp add: toFib_def thresholds_def fib_def)

lemma toFib_in_fib: "toFib s \<in> set fib"
  by (simp add: toFib_cases fib_def)

lemma base_hours_ge: "4 \<le> (case base p of Some h \<Rightarrow> h | None \<Rightarrow> 8)"
  by (simp add: base_def)

lemma estimateHoursFn_product:
  "estimateHoursFn tok points text =
     round ((case base points of Some h \<Rightarrow> h | None \<Rightarrow> 8)
       * (if regex_test uncertaintyWords (clean tok text) then 13 / 10 else 1)
       * (if regex_test simplicityWords (clean tok text) then 8 / 10 else 1)
       * (if regex_test coordinationWords (clean tok text) then 125 / 100 else 1))"
  by (simp add: estimateHoursFn_def Let_def)

lemma product_lower:
  fixes h a b c :: rat
  assumes "4 \<le> h" "1 \<le> a" "4 / 5 \<le> b" "1 \<le> c"
  shows "3 \<le> h * a * b * c"
proof -
  define x where "x = h * a"
  define y where "y = x * b"
  have "h * 1 \<le> h * a" using assms by (intro mult_left_mono) auto
  then have x: "4 \<le> x" using assms unfolding x_def by linarith
  have "x * (4 / 5) \<le> x * b" using x assms by (intro mult_left_mono) auto
  then have y: "16 / 5 \<le> y" using x unfolding y_def by linarith
  have "y * 1 \<le> y * c" using y assms by (intro mult_left_mono) auto
  then have "3 \<le> y * c" using y by linarith
  then show ?thesis unfolding y_def x_def .
qed

lemma estimateHoursFn_ge: "3 \<le> estimateHoursFn tok points text"
proof -
  define h0 :: rat where "h0 = (case base points of Some h \<Rightarrow> h | None \<Rightarrow> 8)"
  define a :: rat where "a = (if regex_test uncertaintyWords (clean tok text) then 13 / 10 else 1)"
  define b :: rat where "b = (if regex_test simplicityWords (clean tok text) then 8 / 10 else 1)"
  define c :: rat where "c = (if regex_test coordinationWords (clean tok text) then 125 / 100 else 1)"
  have h0: "4 \<le> h0" unfolding h0_def by (rule base_hours_ge)
  have a: "1 \<le> a" by (simp add: a_def)
  have b: "4 / 5 \<le> b" by (simp add: b_def)
  have c: "1 \<le> c" by (simp add: c_def)
  have "3 \<le> h0 * a * b * c" using h0 a b c by (rule product_lower)
  then have "round (3::rat) \<le> round (h0 * a * b * c)" by (rule round_mono)
  moreover have "estimateHoursFn tok points text = round (h0 * a * b * c)"
    unfolding h0_def a_def b_def c_def by (rule estimateHoursFn_product)
  ultimately show ?thesis by simp
qed

lemma toFixed2_bounds:
  assumes "of_int l / 100 \<le> x" "x \<le> of_int h / 100" "0 \<le> l"
  shows "of_int l / 100 \<le> toFixed2 x \<and> toFixed2 x \<le> of_int h / 100"
proof -
  have "(0::rat) \<le> of_int l / 100" using assms(3) by simp
  then have x0: "\<not> x < 0" using assms(1) by linarith
  have "of_int l \<le> 100 * x" using assms(1) by simp
  then have "round (of_int l :: rat) \<le> round (100 * x)" by (rule round_mono)
  then have 1: "l \<le> round (100 * x)" by simp
  have "100 * x \<le> of_int h" using assms(2) by simp
  then have "round (100 * x) \<le> round (of_int h :: rat)" by (rule round_mono)
  then have 2: "round (100 * x) \<le> h" by simp
  have eq: "toFixed2 x = of_int (round (100 * x)) / 100" using x0 by (simp add: toFixed2_def)
  have "(of_int l :: rat) \<le> of_int (round (100 * x))" using 1 by (simp only: of_int_le_iff)
  moreover have "(of_int (round (100 * x)) :: rat) \<le> of_int h" using 2 by (simp only: of_int_le_iff)
  ultimately show ?thesis unfolding eq by (simp add: divide_right_mono)
qed

lemma clamp_bounds:
  fixes q lo hi :: rat
  assumes "lo \<le> hi"
  shows "lo \<le> max lo (min hi q) \<and> max lo (min hi q) \<le> hi"
  using assms by (simp add: max_def min_def)

lemma classify_bounds: "5 / 10 \<le> snd (classify m content) \<and> snd (classify m content) \<le> 99 / 100"
proof (cases "getClassifications m content")
  case None
  then show ?thesis by (simp add: classify_def)
next
  case (Some r)
  show ?thesis
  proof (cases r)
    case Nil
    with Some show ?thesis by (simp add: classify_def)
  next
    case (Cons e rest)
    obtain l t where e: "e = (l, t)" by (cases e)
    define second :: rat where "second = (case rest of [] \<Rightarrow> 1 / 10 ^ 9
                         | (l2, v2) # others \<Rightarrow> if v2 = 0 then 1 / 10 ^ 9 else v2)"
    have c: "snd (classify m content) =
        (if t + second = 0 then (if 0 < t then 99 / 100 else 5 / 10)
               else max (5 / 10) (min (99 / 100) (t / (t + second))))"
      using Some Cons e by (simp add: classify_def second_def Let_def)
    show ?thesis
    proof (cases "t + second = 0")
      case True
      then have "snd (classify m content) = 99 / 100 \<or> snd (classify m content) = 5 / 10"
        using c by simp
      then show ?thesis by auto
    next
      case False
      then have eq: "snd (classify m content) = max (5 / 10) (min (99 / 100) (t / (t + second)))"
        using c by simp
      show ?thesis unfolding eq by (rule clamp_bounds) simp
    qed
  qed
qed

lemma toFixed2_hundredth: "\<exists>n::int. toFixed2 x = of_int n / 100"
proof (cases "x < 0")
  case True
  then have "toFixed2 x = of_int (- round (100 * (- x))) / 100" by (simp add: toFixed2_def)
  then show ?thesis by blast
next
  case False
  then have "toFixed2 x = of_int (round (100 * x)) / 100" by (simp add: toFixed2_def)
  then show ?thesis by blast
qed

lemma predictRecord_empty:
  "clean tok text = [] \<Longrightarrow> predictRecord tok m text = defaultPrediction"
  by (simp add: predictRecord_def)

lemma predictRecord_nonempty:
  "clean tok text \<noteq> [] \<Longrightarrow>
   predictRecord tok m text =
     \<lparr>priority = (if regex_test emergencyWords (toLowerCase text) then Critical
                   else fst (classify m (clean tok text))),
      storyPoints = toFib (scoreComplexity tok text),
      estimateHours = estimateHoursFn tok (toFib (scoreComplexity tok text)) text,
      confidence = toFixed2 (if regex_test emergencyWords (toLowerCase text)
                             then max (snd (classify m (clean tok text))) (85 / 100)
                             else snd (classify m (clean tok text))),
      rationale = buildRationale
        (if regex_test emergencyWords (toLowerCase text) then Critical
         else fst (classify m (clean tok text)))
        (toFib (scoreComplexity tok text))
        (estimateHoursFn tok (toFib (scoreComplexity tok text)) text)
        (toLowerCase text)\<rparr>"
  by (cases "classify m (clean tok text)") (simp add: predictRecord_def Let_def)

lemma confidence_bounds:
  "4 / 10 \<le> confidence (predictRecord tok m text) \<and> confidence (predictRecord tok m text) \<le> 99 / 100"
proof (cases "clean tok text = []")
  case True
  then show ?thesis by (simp add: predictRecord_empty defaultPrediction_def)
next
  case False
  define c where "c = (if regex_test emergencyWords (toLowerCase text)
                             then max (snd (classify m (clean tok text))) (85 / 100)
                             else snd (classify m (clean tok text)))"
  have cb: "5 / 10 \<le> snd (classify m (clean tok text)) \<and> snd (classify m (clean tok text)) \<le> 99 / 100"
    by (rule classify_bounds)
  have lo: "of_int 50 / 100 \<le> c" using cb by (auto simp: c_def)
  have hi: "c \<le> of_int 99 / 100" using cb by (auto simp: c_def)
  have "of_int 50 / 100 \<le> toFixed2 c \<and> toFixed2 c \<le> of_int 99 / 100"
    using lo hi by (rule toFixed2_bounds) simp
  then have "4 / 10 \<le> toFixed2 c \<and> toFixed2 c \<le> 99 / 100" by simp
  moreover have "confidence (predictRecord tok m text) = toFixed2 c"
    unfolding c_def predictRecord_nonempty [OF False] by simp
  ultimately show ?thesis by (simp only:)
qed

lemma addIf_count:
  "addIf t list w score = score + w * of_nat (length (filter (str_includes t) list))"
  unfolding addIf_def
  by (induction list arbitrary: score) (simp_all add: algebra_simps)

subsection \<open>What the tokenizer and the normalisation keep\<close>

lemma sublist_skip_others:
  assumes "\<forall>c\<in>set w. P c" "w \<noteq> []" "\<forall>c\<in>set A. \<not> P c" "sublist w (A @ R)"
  shows "sublist w R"
  using assms(3,4)
proof (induction A)
  case Nil
  then show ?case by simp
next
  case (Cons a A)
  from Cons.prems(2) have "prefix w (a # A @ R) \<or> sublist w (A @ R)"
    by (simp add: sublist_Cons_right)
  moreover have "\<not> prefix w (a # A @ R)"
  proof
    assume "prefix w (a # A @ R)"
    with assms(2) have "hd w = a" by (cases w) auto
    moreover have "P (hd w)" using assms(1,2) by (cases w) auto
    ultimately show False using Cons.prems(1) by simp
  qed
  ultimately have "sublist w (A @ R)" by blast
  then show ?case using Cons by simp
qed

lemma sublist_run_or_rest:
  assumes "\<forall>c\<in>set w. P c" "\<forall>c\<in>set A. P c" "R = [] \<or> \<not> P (hd R)" "sublist w (A @ R)"
  shows "sublist w A \<or> sublist w R"
  using assms(2,4)
proof (induction A)
  case Nil
  then show ?case by simp
next
  case (Cons a A)
  from Cons.prems(2) have "prefix w (a # A @ R) \<or> sublist w (A @ R)"
    by (simp add: sublist_Cons_right)
  then show ?case
  proof
    assume "prefix w (a # A @ R)"
    then have "prefix w ((a # A) @ R)" by simp
    then have "prefix w (a # A) \<or> (\<exists>us. w = (a # A) @ us \<and> prefix us R)"
      by (simp only: prefix_append)
    then show ?thesis
    proof
      assume "prefix w (a # A)"
      then show ?thesis by blast
    next
      assume "\<exists>us. w = (a # A) @ us \<and> prefix us R"
      then obtain us where us: "w = (a # A) @ us" "prefix us R" by blast
      show ?thesis
      proof (cases us)
        case Nil
        with us show ?thesis by simp
      next
        case (Cons u us')
        with us(2) have "R \<noteq> []" "hd R = u" by (auto simp: prefix_def)
        moreover have "P u" using assms(1) us(1) Cons by simp
        ultimately show ?thesis using assms(3) by simp
      qed
    qed
  next
    assume "sublist w (A @ R)"
    then have "sublist w A \<or> sublist w R" using Cons by simp
    then show ?thesis by (auto simp: sublist_Cons_right)
  qed
qed

lemma dropWhile_head: "dropWhile P xs = [] \<or> \<not> P (hd (dropWhile P xs))"
  using hd_dropWhile [of P xs] by blast

lemma tokenize_keeps_word:
  assumes "\<forall>c\<in>set w. wordChar c" "w \<noteq> []"
  shows "sublist w s \<Longrightarrow> \<exists>t\<in>set (wordPunctTokenize s). sublist w t"
proof (induction s rule: wordPunctTokenize.induct)
  case 1
  then show ?case using assms(2) by simp
next
  case (2 c cs)
  have split: "cs = takeWhile Q cs @ dropWhile Q cs" for Q :: "char \<Rightarrow> bool" by simp
  show ?case
  proof (cases "wordChar c")
    case True
    have "sublist w ((c # takeWhile wordChar cs) @ dropWhile wordChar cs)"
      using "2.prems" by simp
    moreover have "\<forall>x\<in>set (c # takeWhile wordChar cs). wordChar x"
      using True by (auto dest: set_takeWhileD)
    ultimately have "sublist w (c # takeWhile wordChar cs) \<or> sublist w (dropWhile wordChar cs)"
      using sublist_run_or_rest [of w wordChar "c # takeWhile wordChar cs" "dropWhile wordChar cs"]
        assms(1) dropWhile_head [of wordChar cs] by blast
    then show ?thesis
    proof
      assume "sublist w (c # takeWhile wordChar cs)"
      then show ?thesis using True by simp
    next
      assume "sublist w (dropWhile wordChar cs)"
      then have "\<exists>t\<in>set (wordPunctTokenize (dropWhile wordChar cs)). sublist w t"
        using "2.IH"(1) True by simp
      then show ?thesis using True by auto
    qed
  next
    case False
    have notpre: "\<not> prefix w (c # cs)"
    proof
      assume "prefix w (c # cs)"
      with assms(2) have "hd w = c" by (cases w) auto
      moreover have "wordChar (hd w)" using assms by (cases w) auto
      ultimately show False using False by simp
    qed
    then have cs: "sublist w cs" using "2.prems" by (simp add: sublist_Cons_right)
    have skip: "sublist w (dropWhile Q cs)" if "\<forall>x. Q x \<longrightarrow> \<not> wordChar x" for Q
    proof -
      have "sublist w (takeWhile Q cs @ dropWhile Q cs)" using cs by simp
      moreover have "\<forall>x\<in>set (takeWhile Q cs). \<not> wordChar x"
        using that by (auto dest: set_takeWhileD)
      ultimately show ?thesis
        using sublist_skip_others [of w wordChar "takeWhile Q cs" "dropWhile Q cs"] assms by blast
    qed
    show ?thesis
    proof (cases "numChar c")
      case True
      have "sublist w (dropWhile numChar cs)"
        by (rule skip) (auto simp: numChar_def wordChar_def isDigit_def)
      then have "\<exists>t\<in>set (wordPunctTokenize (dropWhile numChar cs)). sublist w t"
        using "2.IH"(2) False True by simp
      then show ?thesis using False True by auto
    next
      case nn: False
      show ?thesis
      proof (cases "lineTerminator c")
        case True
        have "sublist w (dropWhile lineTerminator cs)"
          by (rule skip) (auto simp: lineTerminator_def wordChar_def)
        then have "\<exists>t\<in>set (wordPunctTokenize (dropWhile lineTerminator cs)). sublist w t"
          using "2.IH"(3) False nn True by simp
        then show ?thesis using False nn True by auto
      next
        case nl: False
        show ?thesis
        proof (cases "c = CHR '' ''")
          case True
          then show ?thesis using "2.IH"(4) False nn nl cs by simp
        next
          case ns: False
          then have "\<exists>t\<in>set (wordPunctTokenize cs). sublist w t"
            using "2.IH"(5) False nn nl cs by simp
          then show ?thesis using False nn nl ns by auto
        qed
      qed
    qed
  qed
qed

lemma join_includes: "t \<in> set ts \<Longrightarrow> sublist t (join sep ts)"
proof (induction sep ts rule: join.induct)
  case (1 sep)
  then show ?case by simp
next
  case (2 sep x)
  then show ?case by simp
next
  case (3 sep x y ys)
  show ?case
  proof (cases "t = x")
    case True
    then show ?thesis by simp
  next
    case False
    then have "sublist t (join sep (y # ys))" using 3 by simp
    then obtain ps ss where "join sep (y # ys) = ps @ t @ ss" by (auto simp: sublist_def)
    then have "join sep (x # y # ys) = (x @ sep @ ps) @ t @ ss" by simp
    then show ?thesis unfolding sublist_def by blast
  qed
qed

lemma clean_keeps_word:
  assumes "sublist w (toLowerCase text)" "\<forall>c\<in>set w. wordChar c" "list_ex alnumHash w"
    "\<forall>sw\<in>set stopwords. \<not> sublist w sw"
  shows "sublist w (clean wordPunctTokenize text)"
proof -
  have ne: "w \<noteq> []" using assms(3) by auto
  obtain t where t: "t \<in> set (wordPunctTokenize (toLowerCase text))" "sublist w t"
    using tokenize_keeps_word [OF assms(2) ne assms(1)] by blast
  have "set w \<subseteq> set t" using t(2) by (rule set_mono_sublist)
  then have "alnumTest t" using assms(3) by (auto simp: alnumTest_def list_ex_iff)
  moreover have "t \<notin> set stopwords" using assms(4) t(2) by blast
  ultimately have "t \<in> set (filter (\<lambda>t. t \<notin> set stopwords)
      (filter alnumTest (wordPunctTokenize (toLowerCase text))))"
    using t(1) by simp
  then have "sublist t (clean wordPunctTokenize text)"
    unfolding clean_def Let_def by (rule join_includes)
  with t(2) show ?thesis by (rule sublist_order.order_trans)
qed

lemma keyword_content_nonempty:
  assumes "sublist k (toLowerCase text)" "sublist w k" "\<forall>c\<in>set w. wordChar c" "list_ex alnumHash w"
    "\<forall>sw\<in>set stopwords. \<not> sublist w sw"
  shows "clean wordPunctTokenize text \<noteq> []"
proof -
  have "sublist w (toLowerCase text)" using assms(2,1) by (rule sublist_order.order_trans)
  then have "sublist w (clean wordPunctTokenize text)"
    using assms(3,4,5) by (rule clean_keeps_word)
  moreover have "w \<noteq> []" using assms(4) by auto
  ultimately show ?thesis by auto
qed

lemmas char_class_defs = wordChar_def alnumHash_def isDigit_def code_unit_def

lemma emergency_content_nonempty:
  assumes "regex_test emergencyWords (toLowerCase text)"
  shows "clean wordPunctTokenize text \<noteq> []"
proof -
  from assms consider
      "sublist ''sev1'' (toLowerCase text)" | "sublist ''p0'' (toLowerCase text)"
    | "sublist ''outage'' (toLowerCase text)" | "sublist ''down'' (toLowerCase text)"
    | "sublist ''cannot login'' (toLowerCase text)" | "sublist ''payment failed'' (toLowerCase text)"
    | "sublist ''data loss'' (toLowerCase text)" | "sublist ''security'' (toLowerCase text)"
    | "sublist ''breach'' (toLowerCase text)"
    unfolding regex_test_def emergencyWords_def by auto
  then show ?thesis
  proof cases
    case 1
    then show ?thesis
      by (rule keyword_content_nonempty [where w = "''sev''"])
         (simp_all add: char_class_defs stopwords_def sublist_code)
  next
    case 2
    then show ?thesis
      by (rule keyword_content_nonempty [where w = "''p''"])
         (simp_all add: char_class_defs stopwords_def sublist_code)
  next
    case 3
    then show ?thesis
      by (rule keyword_content_nonempty [where w = "''outage''"])
         (simp_all add: char_class_defs stopwords_def sublist_code)
  next
    case 4
    then show ?thesis
      by (rule keyword_content_nonempty [where w = "''down''"])
         (simp_all add: char_class_defs stopwords_def sublist_code)
  next
    case 5
    then show ?thesis
      by (rule keyword_content_nonempty [where w = "''cannot''"])
         (simp_all add: char_class_defs stopwords_def sublist_code)
  next
    case 6
    then show ?thesis
      by (rule keyword_content_nonempty [where w = "''payment''"])
         (simp_all add: char_class_defs stopwords_def sublist_code)
  next
    case 7
    then show ?thesis
      by (rule keyword_content_nonempty [where w = "''data''"])
         (simp_all add: char_class_defs stopwords_def sublist_code)
  next
    case 8
    then show ?thesis
      by (rule keyword_content_nonempty [where w = "''security''"])
         (simp_all add: char_class_defs stopwords_def sublist_code)
  next
    case 9
    then show ?thesis
      by (rule keyword_content_nonempty [where w = "''breach''"])
         (simp_all add: char_class_defs stopwords_def sublist_code)
  qed
qed

lemmas eval_defs = clean_def toLowerCase_def toLowerCase_char_def isUpper_def code_unit_def
  wordChar_def numChar_def lineTerminator_def isDigit_def isSpace_def alnumTest_def alnumHash_def
  stopwords_def regex_test_def sublist_code

lemma override_when_content:
  assumes "regex_test emergencyWords (toLowerCase text)" "clean tok text \<noteq> []"
  shows "priority (predictRecord tok m text) = Critical
    \<and> 85 / 100 \<le> confidence (predictRecord tok m text)"
proof -
  define c where "c = max (snd (classify m (clean tok text))) (85 / 100)"
  have cb: "5 / 10 \<le> snd (classify m (clean tok text)) \<and> snd (classify m (clean tok text)) \<le> 99 / 100"
    by (rule classify_bounds)
  have lo: "of_int 85 / 100 \<le> c" by (simp add: c_def)
  have hi: "c \<le> of_int 99 / 100" using cb by (auto simp: c_def max_def)
  have "of_int 85 / 100 \<le> toFixed2 c \<and> toFixed2 c \<le> of_int 99 / 100"
    using lo hi by (rule toFixed2_bounds) simp
  then have "85 / 100 \<le> toFixed2 c" by simp
  moreover have "confidence (predictRecord tok m text) = toFixed2 c"
    unfolding c_def predictRecord_nonempty [OF assms(2)] using assms(1) by simp
  moreover have "priority (predictRecord tok m text) = Critical"
    unfolding predictRecord_nonempty [OF assms(2)] using assms(1) by simp
  ultimately show ?thesis by (simp only:)
qed

lemma pipeline_differs_from_default:
  "clean tok text \<noteq> [] \<Longrightarrow> predictRecord tok m text \<noteq> defaultPrediction"
  by (simp add: predictRecord_nonempty defaultPrediction_def buildRationale_def Let_def)

lemma tokenize_empty: "clean wordPunctTokenize [] = []"
  by (simp add: clean_def toLowerCase_def)

lemma recordText_the: "recordText [''Summary'' \<mapsto> ''the''] = ''the''"
  by (simp add: recordText_def column_def trim_def isSpace_def code_unit_def)

lemma clean_the: "clean wordPunctTokenize ''the'' = []"
  by (simp add: eval_defs)

lemma paymentText_lower:
  "toLowerCase paymentText = ''payment gateway failing checkout blocked for all customers''"
  by (simp add: paymentText_def toLowerCase_def toLowerCase_char_def isUpper_def code_unit_def)

lemma paymentText_clean:
  "clean wordPunctTokenize paymentText = ''payment gateway failing checkout blocked all customers''"
  by (simp add: paymentText_def eval_defs)

lemma paymentText_no_emergency: "\<not> regex_test emergencyWords (toLowerCase paymentText)"
  unfolding paymentText_lower by (simp add: emergencyWords_def regex_test_def sublist_code)

lemma revenue_cue:
  assumes "regex_test [''payment'', ''checkout''] raw"
  shows "sublist ''revenue impact'' (buildRationale prio sp hours raw)"
proof -
  have mem: "''revenue impact'' \<in> set (rationaleCues raw)"
    using assms by (simp add: rationaleCues_def Let_def)
  then have j: "sublist ''revenue impact'' (join '', '' (rationaleCues raw))"
    by (rule join_includes)
  then have ne: "join '', '' (rationaleCues raw) \<noteq> []" by auto
  have "buildRationale prio sp hours raw =
      (''Priority '' @ priority_name prio @ '' based on cues: '') @ join '', '' (rationaleCues raw)
         @ (''. Story Points ~'' @ showNat sp @ '', Est ~'' @ showInt hours @ ''h.'')"
    using ne by (simp add: buildRationale_def Let_def)
  moreover have "sublist (join '', '' (rationaleCues raw))
      ((''Priority '' @ priority_name prio @ '' based on cues: '') @ join '', '' (rationaleCues raw)
         @ (''. Story Points ~'' @ showNat sp @ '', Est ~'' @ showInt hours @ ''h.''))"
    by (rule sublist_appendI)
  ultimately have "sublist (join '', '' (rationaleCues raw)) (buildRationale prio sp hours raw)"
    by simp
  with j show ?thesis by (rule sublist_order.order_trans)
qed

lemma clean_validation_minor: "clean wordPunctTokenize ''validation minor'' = ''validation minor''"
  by (simp add: eval_defs)

subsection \<open>The chat\<close>

lemma dropWhile_keeps: "\<not> P a \<Longrightarrow> \<exists>qs. dropWhile P (ps @ a # rest) = qs @ a # rest"
  by (induction ps) auto

lemma trim_keeps:
  assumes "\<not> isSpace a" "\<not> isSpace c"
  shows "\<exists>qs rs. trim (ps @ a # mid @ c # ss) = qs @ a # mid @ c # rs"
proof -
  obtain qs where qs: "dropWhile isSpace (ps @ a # (mid @ c # ss)) = qs @ a # (mid @ c # ss)"
    using dropWhile_keeps [of isSpace a ps "mid @ c # ss"] assms(1) by blast
  have "rev (qs @ a # (mid @ c # ss)) = rev ss @ c # (rev mid @ a # rev qs)" by simp
  moreover obtain rs where "dropWhile isSpace (rev ss @ c # (rev mid @ a # rev qs))
      = rs @ c # (rev mid @ a # rev qs)"
    using dropWhile_keeps [of isSpace c "rev ss" "rev mid @ a # rev qs"] assms(2) by blast
  ultimately have "trim (ps @ a # mid @ c # ss) = rev (rs @ c # (rev mid @ a # rev qs))"
    using qs by (simp add: trim_def)
  then have "trim (ps @ a # mid @ c # ss) = qs @ a # mid @ c # rev rs" by simp
  then show ?thesis by blast
qed

lemma space_not_upper: "isSpace x \<Longrightarrow> \<not> isUpper x"
  by (auto simp: isSpace_def isUpper_def)

lemma lower_letter_not_space:
  assumes "toLowerCase_char x = l" "\<not> isSpace l"
  shows "\<not> isSpace x"
proof
  assume "isSpace x"
  then have "toLowerCase_char x = x" using space_not_upper by (simp add: toLowerCase_char_def)
  with assms \<open>isSpace x\<close> show False by simp
qed

lemma whyMatch_sublist: "whyMatch msg = Some ds \<Longrightarrow> sublist ''why'' msg"
proof (induction msg)
  case Nil
  then show ?case by simp
next
  case (Cons c cs)
  show ?case
  proof (cases "matchWhyAt (c # cs)")
    case None
    then have "sublist ''why'' cs" using Cons by simp
    then show ?thesis by (simp add: sublist_Cons_right)
  next
    case (Some a)
    then have "prefix ''why'' (c # cs)"
      unfolding matchWhyAt_def by (simp split: if_splits)
    then show ?thesis by (rule prefix_imp_sublist)
  qed
qed

lemma why_message_long:
  assumes "sublist ''why'' (toLowerCase message)"
  shows "message \<noteq> [] \<and> 2 \<le> length (trim message)"
proof -
  obtain ps ss where "map toLowerCase_char message = ps @ ''why'' @ ss"
    using assms unfolding sublist_def toLowerCase_def by blast
  then obtain ps' a b c ss' where m: "message = ps' @ a # b # c # ss'"
    and a: "toLowerCase_char a = CHR ''w''" and c: "toLowerCase_char c = CHR ''y''"
    by (auto simp: map_eq_append_conv map_eq_Cons_conv)
  have "\<not> isSpace a" using a by (rule lower_letter_not_space) (simp add: isSpace_def code_unit_def)
  moreover have "\<not> isSpace c" using c by (rule lower_letter_not_space) (simp add: isSpace_def code_unit_def)
  ultimately obtain qs rs where "trim (ps' @ a # [b] @ c # ss') = qs @ a # [b] @ c # rs"
    using trim_keeps by blast
  then have "trim message = qs @ a # b # c # rs" using m by simp
  then show ?thesis using m by simp
qed

lemma exampleDataset_length: "length exampleDataset = 3"
  by (simp add: exampleDataset_def predictBatch_def)

lemma scaled_near:
  fixes y z :: rat
  assumes "\<bar>y - z\<bar> \<le> 1 / 2"
  shows "\<bar>y / 100 - z / 100\<bar> \<le> 1 / 200"
  using assms by linarith

lemma toFixed2_near: "\<bar>toFixed2 x - x\<bar> \<le> 1 / 200"
proof (cases "x < 0")
  case True
  define r :: rat where "r = of_int (round (100 * (- x)))"
  have "\<bar>r - 100 * (- x)\<bar> \<le> 1 / 2"
    unfolding r_def by (rule of_int_round_abs_le)
  then have "\<bar>r / 100 - (100 * (- x)) / 100\<bar> \<le> 1 / 200" by (rule scaled_near)
  then have "\<bar>r / 100 + x\<bar> \<le> 1 / 200" by simp
  moreover have "toFixed2 x - x = - (r / 100 + x)"
    using True by (simp add: toFixed2_def r_def)
  ultimately show ?thesis by (simp only: abs_minus_cancel)
next
  case False
  define r :: rat where "r = of_int (round (100 * x))"
  have "\<bar>r - 100 * x\<bar> \<le> 1 / 2"
    unfolding r_def by (rule of_int_round_abs_le)
  then have "\<bar>r / 100 - (100 * x) / 100\<bar> \<le> 1 / 200" by (rule scaled_near)
  then have "\<bar>r / 100 - x\<bar> \<le> 1 / 200" by simp
  moreover have "toFixed2 x - x = r / 100 - x"
    using False by (simp add: toFixed2_def r_def)
  ultimately show ?thesis by (simp only:)
qed

lemma chat_falls_through:
  assumes "lastDataset \<noteq> []"
    and "whyMatch (toLowerCase message) = Some ds"
    and "parseInt ds < 1 \<or> int (length lastDataset) < parseInt ds"
  shows "chat lastDataset (Some message) = Reply (laterIntents lastDataset (toLowerCase message))"
proof -
  have "sublist ''why'' (toLowerCase message)" using assms(2) by (rule whyMatch_sublist)
  then have len: "message \<noteq> [] \<and> 2 \<le> length (trim message)" by (rule why_message_long)
  have range: "\<not> (0 \<le> parseInt ds - 1 \<and> parseInt ds - 1 < int (length lastDataset))"
    using assms(3) by linarith
  show ?thesis
    using len assms(1,2) range by (auto simp: chat_def Let_def)
qed

lemma example_row1:
  "predictRow wordPunctTokenize (constantModel [(High, 3 / 4), (Medium, 1 / 4)]) 0
     [''Summary'' \<mapsto> ''Service down'', ''Description'' \<mapsto> ''Users cannot login after update'']
   = \<lparr>Row = 1, Summary = ''Service down'', Description = ''Users cannot login after update'',
       Priority = Critical, StoryPoints = 1, EstimateHours = 4, Confidence = 85 / 100,
       Rationale = ''Priority Critical based on cues: service outage. Story Points ~1, Est ~4h.''\<rparr>"
  by code_simp

lemma example_row2:
  "predictRow wordPunctTokenize (constantModel [(High, 3 / 4), (Medium, 1 / 4)]) (Suc 0)
     [''Summary'' \<mapsto> ''the'']
   = \<lparr>Row = 2, Summary = ''the'', Description = '''',
       Priority = Low, StoryPoints = 1, EstimateHours = 4, Confidence = 4 / 10,
       Rationale = ''No text provided. Falling back to conservative defaults.''\<rparr>"
  by code_simp

lemma example_row3:
  "predictRow wordPunctTokenize (constantModel [(High, 3 / 4), (Medium, 1 / 4)]) (Suc (Suc 0))
     [''Summary'' \<mapsto> ''UI button misaligned'', ''Description'' \<mapsto> ''Minor CSS fix needed'']
   = \<lparr>Row = 3, Summary = ''UI button misaligned'', Description = ''Minor CSS fix needed'',
       Priority = High, StoryPoints = 2, EstimateHours = 6, Confidence = 75 / 100,
       Rationale = ''Priority High based on cues: cosmetic. Story Points ~2, Est ~6h.''\<rparr>"
  by code_simp

lemma exampleDataset_rows:
  "exampleDataset =
    [\<lparr>Row = 1, Summary = ''Service down'', Description = ''Users cannot login after update'',
       Priority = Critical, StoryPoints = 1, EstimateHours = 4, Confidence = 85 / 100,
       Rationale = ''Priority Critical based on cues: service outage. Story Points ~1, Est ~4h.''\<rparr>,
     \<lparr>Row = 2, Summary = ''the'', Description = '''',
       Priority = Low, StoryPoints = 1, EstimateHours = 4, Confidence = 4 / 10,
       Rationale = ''No text provided. Falling back to conservative defaults.''\<rparr>,
     \<lparr>Row = 3, Summary = ''UI button misaligned'', Description = ''Minor CSS fix needed'',
       Priority = High, StoryPoints = 2, EstimateHours = 6, Confidence = 75 / 100,
       Rationale = ''Priority High based on cues: cosmetic. Story Points ~2, Est ~6h.''\<rparr>]"
  unfolding exampleDataset_def predictBatch_def
  by (simp only: enumerate_simps list.map prod.case example_row1 example_row2 example_row3)

lemma exampleDataset_summary:
  "priorityCounts (summarizeDataset exampleDataset) = [(Critical, 1), (Low, 1), (High, 1)]
   \<and> avgStoryPoints (summarizeDataset exampleDataset) = 4 / 3
   \<and> avgHours (summarizeDataset exampleDataset) = 14 / 3"
  unfolding exampleDataset_rows by code_simp

lemma exampleDataset_sorted:
  "map Row (sortRows exampleDataset) = [1, 3, 2]
   \<and> map Priority (sortRows exampleDataset) = [Critical, High, Low]
   \<and> length (sortRows exampleDataset) = 3"
  unfolding exampleDataset_rows by code_simp

subsection \<open>The ranking of the payment text\<close>

lemma seed_counts:
  "map (\<lambda>(label, phrases). (label, map (stemCount phrases) paymentStems)) seeds
   = [(Critical, [2, 2, 3, 2, 2, 2]), (High, [1, 1, 2, 1, 2, 2]),
      (Medium, [1, 1, 1, 1, 1, 1]), (Low, [1, 1, 1, 1, 1, 1])]"
  by code_simp

lemma paymentRanking_values:
  "paymentRanking c = [(Critical, c * 96), (High, c * 8), (Medium, c * 1), (Low, c * 1)]"
proof -
  have "paymentRanking c
      = map (\<lambda>(label, counts). (label, c * of_nat (prod_list counts)))
          (map (\<lambda>(label, phrases). (label, map (stemCount phrases) paymentStems)) seeds)"
    by (simp add: paymentRanking_def split_def comp_def)
  then show ?thesis unfolding seed_counts by simp
qed

lemma classify_paymentRanking:
  assumes "0 < c" "getClassifications m content = Some (paymentRanking c)"
  shows "classify m content = (Critical, 12 / 13)"
proof -
  have r: "c * 96 / (c * 96 + c * 8) = 12 / 13" using assms(1) by (simp add: field_simps)
  have n: "c * 96 + c * 8 \<noteq> 0" using assms(1) by simp
  have z: "c * 8 \<noteq> 0" using assms(1) by simp
  show ?thesis
    unfolding classify_def assms(2) paymentRanking_values using r n z by simp
qed

section \<open>The claims\<close>

text \<open>
  C1. Whenever the lower-cased raw text matches the emergency pattern, \<open>predictRecord\<close>
  returns the priority Critical and a confidence of at least 0.85, whatever the
  classifier ranks. The override comes after the test for an empty normalised text; a text
  that matches the pattern never has an empty normalised text under \<open>wordPunctTokenize\<close>,
  and for any other tokenizer the override wins whenever the normalised text is not empty.
\<close>

theorem emergency_override:
  assumes "regex_test emergencyWords (toLowerCase text)"
  shows "priority (predictRecord wordPunctTokenize m text) = Critical
    \<and> 85 / 100 \<le> confidence (predictRecord wordPunctTokenize m text)
    \<and> (\<forall>tok. clean tok text \<noteq> [] \<longrightarrow>
          priority (predictRecord tok m text) = Critical
          \<and> 85 / 100 \<le> confidence (predictRecord tok m text))"
proof -
  have "clean wordPunctTokenize text \<noteq> []"
    using assms by (rule emergency_content_nonempty)
  with assms have "priority (predictRecord wordPunctTokenize m text) = Critical
    \<and> 85 / 100 \<le> confidence (predictRecord wordPunctTokenize m text)"
    by (rule override_when_content)
  moreover have "\<forall>tok. clean tok text \<noteq> [] \<longrightarrow>
          priority (predictRecord tok m text) = Critical
          \<and> 85 / 100 \<le> confidence (predictRecord tok m text)"
    by (intro allI impI) (rule override_when_content [OF assms])
  ultimately show ?thesis by blast
qed

theorem emergency_override_witness:
  "regex_test emergencyWords (toLowerCase ''Cannot login after update'')
   \<and> priority (predictRecord wordPunctTokenize
        (constantModel [(Low, 9 / 10), (Medium, 1 / 10)]) ''Cannot login after update'') = Critical
   \<and> 85 / 100 \<le> confidence (predictRecord wordPunctTokenize
        (constantModel [(Low, 9 / 10), (Medium, 1 / 10)]) ''Cannot login after update'')"
proof -
  have h: "regex_test emergencyWords (toLowerCase ''Cannot login after update'')"
    by (simp add: emergencyWords_def eval_defs)
  show ?thesis
    using h emergency_override [OF h, of "constantModel [(Low, 9 / 10), (Medium, 1 / 10)]"]
    by blast
qed

text \<open>
  C2. For every input text (and every tokenizer and classifier), the result of
  \<open>predictRecord\<close> has its story points among 1, 2, 3, 5, 8, 13, an hour estimate of at
  least 1, and a confidence between 0.4 and 0.99.
\<close>

theorem predictRecord_ranges:
  "storyPoints (predictRecord tok m text) \<in> {1, 2, 3, 5, 8, 13}
   \<and> 1 \<le> estimateHours (predictRecord tok m text)
   \<and> 4 / 10 \<le> confidence (predictRecord tok m text)
   \<and> confidence (predictRecord tok m text) \<le> 99 / 100"
proof -
  have sp: "storyPoints (predictRecord tok m text) \<in> {1, 2, 3, 5, 8, 13}"
  proof (cases "clean tok text = []")
    case True
    then show ?thesis by (simp add: predictRecord_empty defaultPrediction_def)
  next
    case False
    then show ?thesis using toFib_in_fib [of "scoreComplexity tok text"]
      by (simp add: predictRecord_nonempty fib_def)
  qed
  have eh: "1 \<le> estimateHours (predictRecord tok m text)"
  proof (cases "clean tok text = []")
    case True
    then show ?thesis by (simp add: predictRecord_empty defaultPrediction_def)
  next
    case False
    then show ?thesis using estimateHoursFn_ge [of tok "toFib (scoreComplexity tok text)" "text"]
      by (simp add: predictRecord_nonempty)
  qed
  show ?thesis using sp eh confidence_bounds [of tok m "text"] by blast
qed

text \<open>
  C3. As stated (the short-circuit is taken if and only if the trimmed concatenation of
  summary and description is empty) the claim fails: the test is on the normalised text,
  which is also empty for a text of stop-words or punctuation only. The record with the
  summary "the" has a non-empty trimmed text and still gets the fixed result.
\<close>

theorem shortcircuit_counterexample:
  "recordText [''Summary'' \<mapsto> ''the''] = ''the''
   \<and> predictRecord wordPunctTokenize (constantModel [(High, 3 / 4), (Medium, 1 / 4)])
        (recordText [''Summary'' \<mapsto> ''the'']) = defaultPrediction"
  by (simp add: recordText_the predictRecord_empty clean_the)

text \<open>
  C3, amended. \<open>predictRecord\<close> returns exactly the fixed result if and only if the
  normalised text is empty, and then the result does not depend on the classifier. A
  record whose trimmed concatenation is empty is such a case. When the normalised text is
  not empty the pipeline runs: the story points and hours come from the complexity score,
  and, unless the emergency pattern matches, priority and confidence from the classifier.
\<close>

theorem shortcircuit_iff_content_empty:
  "(predictRecord tok m text = defaultPrediction \<longleftrightarrow> clean tok text = [])
   \<and> (clean tok text = [] \<longrightarrow> predictRecord tok m' text = predictRecord tok m text)
   \<and> (recordText row = [] \<longrightarrow>
         predictRecord wordPunctTokenize m (recordText row) = defaultPrediction)
   \<and> (clean tok text \<noteq> [] \<longrightarrow>
         storyPoints (predictRecord tok m text) = toFib (scoreComplexity tok text)
         \<and> estimateHours (predictRecord tok m text)
             = estimateHoursFn tok (toFib (scoreComplexity tok text)) text
         \<and> (\<not> regex_test emergencyWords (toLowerCase text) \<longrightarrow>
               priority (predictRecord tok m text) = fst (classify m (clean tok text))
               \<and> confidence (predictRecord tok m text)
                   = toFixed2 (snd (classify m (clean tok text)))))"
proof -
  have 1: "predictRecord tok m text = defaultPrediction \<longleftrightarrow> clean tok text = []"
    using predictRecord_empty [of tok "text" m] pipeline_differs_from_default [of tok "text" m]
    by blast
  have 2: "clean tok text = [] \<longrightarrow> predictRecord tok m' text = predictRecord tok m text"
    by (simp add: predictRecord_empty)
  have 3: "recordText row = [] \<longrightarrow>
         predictRecord wordPunctTokenize m (recordText row) = defaultPrediction"
    by (simp add: predictRecord_empty tokenize_empty)
  have 4: "clean tok text \<noteq> [] \<longrightarrow>
         storyPoints (predictRecord tok m text) = toFib (scoreComplexity tok text)
         \<and> estimateHours (predictRecord tok m text)
             = estimateHoursFn tok (toFib (scoreComplexity tok text)) text
         \<and> (\<not> regex_test emergencyWords (toLowerCase text) \<longrightarrow>
               priority (predictRecord tok m text) = fst (classify m (clean tok text))
               \<and> confidence (predictRecord tok m text)
                   = toFixed2 (snd (classify m (clean tok text))))"
    by (simp add: predictRecord_nonempty)
  show ?thesis using 1 2 3 4 by blast
qed

theorem shortcircuit_iff_content_empty_witness:
  "clean wordPunctTokenize ''the'' = []
   \<and> predictRecord wordPunctTokenize throwingModel ''the'' = defaultPrediction
   \<and> recordText [''Summary'' \<mapsto> ''  '', ''Description'' \<mapsto> ''''] = []
   \<and> predictRecord wordPunctTokenize throwingModel
        (recordText [''Summary'' \<mapsto> ''  '', ''Description'' \<mapsto> '''']) = defaultPrediction
   \<and> clean wordPunctTokenize ''Fix typo'' \<noteq> []
   \<and> storyPoints (predictRecord wordPunctTokenize throwingModel ''Fix typo'')
       = toFib (scoreComplexity wordPunctTokenize ''Fix typo'')
   \<and> priority (predictRecord wordPunctTokenize throwingModel ''Fix typo'') = Medium"
proof -
  have a: "clean wordPunctTokenize ''the'' = []" by (rule clean_the)
  have b: "recordText [''Summary'' \<mapsto> ''  '', ''Description'' \<mapsto> ''''] = []"
    by (simp add: recordText_def column_def trim_def isSpace_def code_unit_def)
  have c: "clean wordPunctTokenize ''Fix typo'' \<noteq> []" by (simp add: eval_defs)
  have d: "\<not> regex_test emergencyWords (toLowerCase ''Fix typo'')"
    by (simp add: emergencyWords_def eval_defs)
  have e: "fst (classify throwingModel (clean wordPunctTokenize ''Fix typo'')) = Medium"
    by (simp add: classify_def throwingModel_def)
  show ?thesis
    using a b c d e
      shortcircuit_iff_content_empty [of wordPunctTokenize throwingModel "''the''" throwingModel
        "[''Summary'' \<mapsto> ''  '', ''Description'' \<mapsto> '''']"]
      shortcircuit_iff_content_empty [of wordPunctTokenize throwingModel "''Fix typo''" throwingModel
        "[''Summary'' \<mapsto> ''  '', ''Description'' \<mapsto> '''']"]
    by simp
qed

text \<open>
  C4. As stated (each keyword set adds its weight at most once) the claim fails:
  \<open>addIf\<close> adds the weight once for every keyword of the set that occurs in the normalised
  text. The text "validation minor" holds two keywords of the small set and scores
  2/120 + 0.05 + 0.05 = 7/60, where one contribution per set would give 4/60.
\<close>

theorem scoreComplexity_counterexample:
  "clean wordPunctTokenize ''validation minor'' = ''validation minor''
   \<and> scoreComplexity wordPunctTokenize ''validation minor'' = 7 / 60
   \<and> scoreComplexity_once wordPunctTokenize ''validation minor'' = 4 / 60"
proof -
  have 1: "scoreComplexity wordPunctTokenize ''validation minor'' = 7 / 60"
    by code_simp
  have 2: "scoreComplexity_once wordPunctTokenize ''validation minor'' = 4 / 60"
    by code_simp
  show ?thesis using clean_validation_minor 1 2 by (simp only: simp_thms)
qed

text \<open>
  C4, amended. Each keyword of a set that occurs as a substring of the normalised text
  adds the weight of its set once (tiny -0.20, small +0.05, medium +0.15, large +0.35):
  a set of which k keywords occur contributes k times its weight. The sum is clamped to
  the interval from 0 to 1.5.
\<close>

theorem scoreComplexity_per_keyword:
  "scoreComplexity tok text =
     max 0 (min (15 / 10)
       (min 1 (of_nat (max 1 (split_length (clean tok text))) / 120)
        - (2 / 10) * of_nat (keywordHits (clean tok text) complexityKeywords_tiny)
        + (5 / 100) * of_nat (keywordHits (clean tok text) complexityKeywords_small)
        + (15 / 100) * of_nat (keywordHits (clean tok text) complexityKeywords_medium)
        + (35 / 100) * of_nat (keywordHits (clean tok text) complexityKeywords_large)))
   \<and> 0 \<le> scoreComplexity tok text \<and> scoreComplexity tok text \<le> 15 / 10"
proof -
  have "scoreComplexity tok text =
     max 0 (min (15 / 10)
       (min 1 (of_nat (max 1 (split_length (clean tok text))) / 120)
        - (2 / 10) * of_nat (keywordHits (clean tok text) complexityKeywords_tiny)
        + (5 / 100) * of_nat (keywordHits (clean tok text) complexityKeywords_small)
        + (15 / 100) * of_nat (keywordHits (clean tok text) complexityKeywords_medium)
        + (35 / 100) * of_nat (keywordHits (clean tok text) complexityKeywords_large)))"
    unfolding scoreComplexity_def Let_def addIf_count keywordHits_def by simp
  moreover have "0 \<le> scoreComplexity tok text \<and> scoreComplexity tok text \<le> 15 / 10"
    unfolding scoreComplexity_def Let_def by (simp add: max_def min_def)
  ultimately show ?thesis by blast
qed

text \<open>
  C5. The hour estimate is the value of the base table (8 for a key the table does not
  have), multiplied by 1.30 when an uncertainty keyword occurs in the normalised text, by
  0.80 when a simplicity keyword occurs and by 1.25 when a coordination keyword occurs,
  all that apply, and rounded to the nearest integer. A normalised text that contains
  "well-defined" gets the factor 0.80 and one that contains "cross-team" the factor 1.25;
  under \<open>wordPunctTokenize\<close>, which keeps a hyphen inside a word, this holds for every raw
  text whose lower-cased form contains them.
\<close>

theorem estimateHoursFn_multipliers:
  "estimateHoursFn tok points text =
     round ((case base points of Some h \<Rightarrow> h | None \<Rightarrow> 8)
       * (if regex_test uncertaintyWords (clean tok text) then 13 / 10 else 1)
       * (if regex_test simplicityWords (clean tok text) then 8 / 10 else 1)
       * (if regex_test coordinationWords (clean tok text) then 125 / 100 else 1))
   \<and> base 1 = Some 4 \<and> base 2 = Some 6 \<and> base 3 = Some 8 \<and> base 5 = Some 16
   \<and> base 8 = Some 32 \<and> base 13 = Some 56
   \<and> (sublist ''well-defined'' (clean tok text) \<longrightarrow> regex_test simplicityWords (clean tok text))
   \<and> (sublist ''cross-team'' (clean tok text) \<longrightarrow> regex_test coordinationWords (clean tok text))
   \<and> (sublist ''well-defined'' (toLowerCase text) \<longrightarrow>
         regex_test simplicityWords (clean wordPunctTokenize text))
   \<and> (sublist ''cross-team'' (toLowerCase text) \<longrightarrow>
         regex_test coordinationWords (clean wordPunctTokenize text))"
proof -
  have 1: "estimateHoursFn tok points text =
     round ((case base points of Some h \<Rightarrow> h | None \<Rightarrow> 8)
       * (if regex_test uncertaintyWords (clean tok text) then 13 / 10 else 1)
       * (if regex_test simplicityWords (clean tok text) then 8 / 10 else 1)
       * (if regex_test coordinationWords (clean tok text) then 125 / 100 else 1))"
    by (rule estimateHoursFn_product)
  have 2: "base 1 = Some 4 \<and> base 2 = Some 6 \<and> base 3 = Some 8 \<and> base 5 = Some 16
   \<and> base 8 = Some 32 \<and> base 13 = Some 56"
    by (simp add: base_def)
  have 3: "sublist ''well-defined'' t \<longrightarrow> regex_test simplicityWords t" for t
    by (simp add: regex_test_def simplicityWords_def)
  have 4: "sublist ''cross-team'' t \<longrightarrow> regex_test coordinationWords t" for t
    by (simp add: regex_test_def coordinationWords_def)
  have 5: "sublist ''well-defined'' (clean wordPunctTokenize text)"
    if "sublist ''well-defined'' (toLowerCase text)"
    using that by (rule clean_keeps_word) (simp_all add: char_class_defs stopwords_def sublist_code)
  have 6: "sublist ''cross-team'' (clean wordPunctTokenize text)"
    if "sublist ''cross-team'' (toLowerCase text)"
    using that by (rule clean_keeps_word) (simp_all add: char_class_defs stopwords_def sublist_code)
  show ?thesis using 1 2 3 4 5 6 by blast
qed

theorem estimateHoursFn_multipliers_witness:
  "sublist ''well-defined'' (toLowerCase ''A Well-defined cross-team spike'')
   \<and> sublist ''cross-team'' (toLowerCase ''A Well-defined cross-team spike'')
   \<and> regex_test simplicityWords (clean wordPunctTokenize ''A Well-defined cross-team spike'')
   \<and> regex_test coordinationWords (clean wordPunctTokenize ''A Well-defined cross-team spike'')
   \<and> estimateHoursFn wordPunctTokenize 1 ''A Well-defined cross-team spike'' = 5
   \<and> estimateHoursFn wordPunctTokenize 2 ''A Well-defined cross-team spike'' = 8"
proof -
  have c: "clean wordPunctTokenize ''A Well-defined cross-team spike'' = ''well-defined cross-team spike''"
    by (simp add: eval_defs)
  have l: "toLowerCase ''A Well-defined cross-team spike'' = ''a well-defined cross-team spike''"
    by (simp add: eval_defs)
  have a: "sublist ''well-defined'' (toLowerCase ''A Well-defined cross-team spike'')"
    unfolding l by (simp add: sublist_code)
  have b: "sublist ''cross-team'' (toLowerCase ''A Well-defined cross-team spike'')"
    unfolding l by (simp add: sublist_code)
  have u: "regex_test uncertaintyWords ''well-defined cross-team spike''"
    by (simp add: regex_test_def uncertaintyWords_def sublist_code)
  have r1: "round (26 / 5 :: rat) = 5" by code_simp
  have r2: "round (39 / 5 :: rat) = 8" by code_simp
  show ?thesis
    using a b u
      estimateHoursFn_multipliers [of wordPunctTokenize 1 "''A Well-defined cross-team spike''"]
      estimateHoursFn_multipliers [of wordPunctTokenize 2 "''A Well-defined cross-team spike''"]
    by (simp add: c r1 r2)
qed

text \<open>
  C6. As stated (Critical with a confidence of at least 0.85, triggered by the emergency
  keyword override) the claim fails in its cause: the lower-cased text does not match the
  emergency pattern, which has "payment failed" and neither "payment" nor "checkout", so
  the override does not fire for this text.
\<close>

theorem payment_text_counterexample:
  "\<not> regex_test emergencyWords (toLowerCase paymentText)
   \<and> \<not> sublist ''payment failed'' (toLowerCase paymentText)
   \<and> toLowerCase paymentText = ''payment gateway failing checkout blocked for all customers''"
  using paymentText_no_emergency paymentText_lower by (simp add: sublist_code)

text \<open>
  C6, amended. For the text "Payment gateway failing checkout blocked for all customers"
  \<open>predictRecord\<close> returns the priority Critical with a confidence of at least 0.85, and
  a rationale that contains "revenue impact". The priority and the confidence come from the
  ranking of the classifier trained from the seed phrases, whose values for this text are
  in the ratio 96 : 8 : 1 : 1, which gives the confidence 12/13, returned as 0.92; the
  emergency override does not fire.
\<close>

theorem payment_text_prediction:
  assumes "0 < c"
    and "getClassifications m (clean wordPunctTokenize paymentText) = Some (paymentRanking c)"
  shows "\<not> regex_test emergencyWords (toLowerCase paymentText)
   \<and> priority (predictRecord wordPunctTokenize m paymentText) = Critical
   \<and> confidence (predictRecord wordPunctTokenize m paymentText) = 92 / 100
   \<and> 85 / 100 \<le> confidence (predictRecord wordPunctTokenize m paymentText)
   \<and> sublist ''revenue impact'' (rationale (predictRecord wordPunctTokenize m paymentText))"
proof -
  have ne: "clean wordPunctTokenize paymentText \<noteq> []" by (simp add: paymentText_clean)
  have c: "classify m (clean wordPunctTokenize paymentText) = (Critical, 12 / 13)"
    using assms by (rule classify_paymentRanking)
  have t: "toFixed2 (12 / 13) = 92 / 100" by code_simp
  have r: "regex_test [''payment'', ''checkout''] (toLowerCase paymentText)"
    unfolding paymentText_lower by (simp add: regex_test_def sublist_code)
  have s: "sublist ''revenue impact'' (rationale (predictRecord wordPunctTokenize m paymentText))"
    unfolding predictRecord_nonempty [OF ne] using revenue_cue [OF r] by simp
  have p: "priority (predictRecord wordPunctTokenize m paymentText) = Critical"
    using paymentText_no_emergency by (simp add: predictRecord_nonempty [OF ne] c)
  have q: "confidence (predictRecord wordPunctTokenize m paymentText) = 92 / 100"
    using paymentText_no_emergency by (simp add: predictRecord_nonempty [OF ne] c t)
  show ?thesis using paymentText_no_emergency p q s by simp
qed

theorem payment_text_prediction_witness:
  "(0::rat) < 1
   \<and> getClassifications (constantModel (paymentRanking 1)) (clean wordPunctTokenize paymentText)
       = Some [(Critical, 96), (High, 8), (Medium, 1), (Low, 1)]
   \<and> priority (predictRecord wordPunctTokenize (constantModel (paymentRanking 1)) paymentText)
       = Critical
   \<and> confidence (predictRecord wordPunctTokenize (constantModel (paymentRanking 1)) paymentText)
       = 92 / 100
   \<and> sublist ''revenue impact''
        (rationale (predictRecord wordPunctTokenize (constantModel (paymentRanking 1)) paymentText))"
proof -
  have g: "getClassifications (constantModel (paymentRanking 1)) (clean wordPunctTokenize paymentText)
       = Some (paymentRanking 1)"
    by (simp add: constantModel_def)
  have v: "paymentRanking 1 = [(Critical, 96), (High, 8), (Medium, 1), (Low, 1)]"
    by (simp add: paymentRanking_values)
  have pos: "(0::rat) < 1" by simp
  show ?thesis
    using payment_text_prediction [OF pos g] g v by simp
qed

text \<open>
  C7. Over a non-empty dataset, a message that matches the "why" pattern with a row
  number out of range (below 1 or above the number of rows) is not an error, and the
  later intents are tried in the order of the source, the first that matches giving the
  reply: the distribution reply when a distribution keyword occurs; otherwise the help
  reply when a help keyword occurs; otherwise the rows sorted by priority and confidence,
  at most five, when a "top risky" keyword occurs; otherwise the averages when an average
  keyword occurs; otherwise the fallback reply. With three rows, "Why 10" gets the fallback
  reply and "why 10 how many? help" the distribution reply.
\<close>

theorem why_out_of_range_falls_through:
  assumes "lastDataset \<noteq> []"
    and "whyMatch (toLowerCase message) = Some ds"
    and "parseInt ds < 1 \<or> int (length lastDataset) < parseInt ds"
  shows "chat lastDataset (Some message) \<noteq> BadRequest
    \<and> (regex_test [''distribution'', ''count'', ''how many'', ''breakdown'', ''summary of priority'']
          (toLowerCase message)
        \<longrightarrow> chat lastDataset (Some message)
              = Reply (DistributionReply (priorityCounts (summarizeDataset lastDataset))
                         (avgStoryPoints (summarizeDataset lastDataset))
                         (avgHours (summarizeDataset lastDataset))))
    \<and> (\<not> regex_test [''distribution'', ''count'', ''how many'', ''breakdown'', ''summary of priority'']
            (toLowerCase message)
        \<and> regex_test [''help'', ''what can you do'', ''commands'', ''options''] (toLowerCase message)
        \<longrightarrow> chat lastDataset (Some message) = Reply HelpReply)
    \<and> (\<not> regex_test [''distribution'', ''count'', ''how many'', ''breakdown'', ''summary of priority'']
            (toLowerCase message)
        \<and> \<not> regex_test [''help'', ''what can you do'', ''commands'', ''options''] (toLowerCase message)
        \<and> regex_test [''top risky'', ''highest priority'', ''critical''] (toLowerCase message)
        \<longrightarrow> chat lastDataset (Some message)
              = Reply (TopRiskyReply (take (min 5 (length (sortRows lastDataset)))
                         (sortRows lastDataset))))
    \<and> (\<not> regex_test [''distribution'', ''count'', ''how many'', ''breakdown'', ''summary of priority'']
            (toLowerCase message)
        \<and> \<not> regex_test [''help'', ''what can you do'', ''commands'', ''options''] (toLowerCase message)
        \<and> \<not> regex_test [''top risky'', ''highest priority'', ''critical''] (toLowerCase message)
        \<and> regex_test [''average'', ''avg''] (toLowerCase message)
        \<longrightarrow> chat lastDataset (Some message)
              = Reply (AverageReply (avgStoryPoints (summarizeDataset lastDataset))
                         (avgHours (summarizeDataset lastDataset))))
    \<and> (\<not> regex_test [''distribution'', ''count'', ''how many'', ''breakdown'', ''summary of priority'']
            (toLowerCase message)
        \<and> \<not> regex_test [''help'', ''what can you do'', ''commands'', ''options''] (toLowerCase message)
        \<and> \<not> regex_test [''top risky'', ''highest priority'', ''critical''] (toLowerCase message)
        \<and> \<not> regex_test [''average'', ''avg''] (toLowerCase message)
        \<longrightarrow> chat lastDataset (Some message) = Reply FallbackReply)"
proof -
  have "chat lastDataset (Some message) = Reply (laterIntents lastDataset (toLowerCase message))"
    using assms by (rule chat_falls_through)
  then show ?thesis by (simp add: laterIntents_def Let_def)
qed

theorem why_out_of_range_witness:
  "exampleDataset \<noteq> [] \<and> length exampleDataset = 3
   \<and> chat exampleDataset (Some ''Why 10'') = Reply FallbackReply
   \<and> chat exampleDataset (Some ''why 10 how many? help'')
       = Reply (DistributionReply [(Critical, 1), (Low, 1), (High, 1)] (4 / 3) (14 / 3))
   \<and> chat exampleDataset (Some ''why row 0 help, critical average'') = Reply HelpReply
   \<and> chat exampleDataset (Some ''why 42 critical avg'') = Reply (TopRiskyReply (sortRows exampleDataset))
   \<and> map Row (sortRows exampleDataset) = [1, 3, 2]
   \<and> chat exampleDataset (Some ''why id 4 avg'') = Reply (AverageReply (4 / 3) (14 / 3))"
proof -
  have ne: "exampleDataset \<noteq> []" using exampleDataset_length by auto
  have tk: "take (min 5 (length (sortRows exampleDataset))) (sortRows exampleDataset)
      = sortRows exampleDataset"
    using exampleDataset_sorted by simp
  have w1: "whyMatch (toLowerCase ''Why 10'') = Some ''10''" by code_simp
  have r1: "parseInt ''10'' < 1 \<or> int (length exampleDataset) < parseInt ''10''"
    unfolding exampleDataset_length by code_simp
  have d1: "\<not> regex_test [''distribution'', ''count'', ''how many'', ''breakdown'', ''summary of priority'']
      (toLowerCase ''Why 10'')" by code_simp
  have h1: "\<not> regex_test [''help'', ''what can you do'', ''commands'', ''options'']
      (toLowerCase ''Why 10'')" by code_simp
  have t1: "\<not> regex_test [''top risky'', ''highest priority'', ''critical'']
      (toLowerCase ''Why 10'')" by code_simp
  have a1: "\<not> regex_test [''average'', ''avg'']
      (toLowerCase ''Why 10'')" by code_simp
  have c1: "chat exampleDataset (Some ''Why 10'') = Reply FallbackReply"
    using why_out_of_range_falls_through [OF ne w1 r1] d1 h1 t1 a1 by simp
  have w2: "whyMatch (toLowerCase ''why 10 how many? help'') = Some ''10''" by code_simp
  have r2: "parseInt ''10'' < 1 \<or> int (length exampleDataset) < parseInt ''10''"
    unfolding exampleDataset_length by code_simp
  have d2: "regex_test [''distribution'', ''count'', ''how many'', ''breakdown'', ''summary of priority'']
      (toLowerCase ''why 10 how many? help'')" by code_simp
  have h2: "regex_test [''help'', ''what can you do'', ''commands'', ''options'']
      (toLowerCase ''why 10 how many? help'')" by code_simp
  have t2: "\<not> regex_test [''top risky'', ''highest priority'', ''critical'']
      (toLowerCase ''why 10 how many? help'')" by code_simp
  have a2: "\<not> regex_test [''average'', ''avg'']
      (toLowerCase ''why 10 how many? help'')" by code_simp
  have c2: "chat exampleDataset (Some ''why 10 how many? help'') = Reply (DistributionReply [(Critical, 1), (Low, 1), (High, 1)] (4 / 3) (14 / 3))"
    using why_out_of_range_falls_through [OF ne w2 r2] d2 h2 t2 a2 exampleDataset_summary by simp
  have w3: "whyMatch (toLowerCase ''why row 0 help, critical average'') = Some ''0''" by code_simp
  have r3: "parseInt ''0'' < 1 \<or> int (length exampleDataset) < parseInt ''0''"
    unfolding exampleDataset_length by code_simp
  have d3: "\<not> regex_test [''distribution'', ''count'', ''how many'', ''breakdown'', ''summary of priority'']
      (toLowerCase ''why row 0 help, critical average'')" by code_simp
  have h3: "regex_test [''help'', ''what can you do'', ''commands'', ''options'']
      (toLowerCase ''why row 0 help, critical average'')" by code_simp
  have t3: "regex_test [''top risky'', ''highest priority'', ''critical'']
      (toLowerCase ''why row 0 help, critical average'')" by code_simp
  have a3: "regex_test [''average'', ''avg'']
      (toLowerCase ''why row 0 help, critical average'')" by code_simp
  have c3: "chat exampleDataset (Some ''why row 0 help, critical average'') = Reply HelpReply"
    using why_out_of_range_falls_through [OF ne w3 r3] d3 h3 t3 a3 by simp
  have w4: "whyMatch (toLowerCase ''why 42 critical avg'') = Some ''42''" by code_simp
  have r4: "parseInt ''42'' < 1 \<or> int (length exampleDataset) < parseInt ''42''"
    unfolding exampleDataset_length by code_simp
  have d4: "\<not> regex_test [''distribution'', ''count'', ''how many'', ''breakdown'', ''summary of priority'']
      (toLowerCase ''why 42 critical avg'')" by code_simp
  have h4: "\<not> regex_test [''help'', ''what can you do'', ''commands'', ''options'']
      (toLowerCase ''why 42 critical avg'')" by code_simp
  have t4: "regex_test [''top risky'', ''highest priority'', ''critical'']
      (toLowerCase ''why 42 critical avg'')" by code_simp
  have a4: "regex_test [''average'', ''avg'']
      (toLowerCase ''why 42 critical avg'')" by code_simp
  have c4: "chat exampleDataset (Some ''why 42 critical avg'') = Reply (TopRiskyReply (sortRows exampleDataset))"
    using why_out_of_range_falls_through [OF ne w4 r4] d4 h4 t4 a4 tk by simp
  have w5: "whyMatch (toLowerCase ''why id 4 avg'') = Some ''4''" by code_simp
  have r5: "parseInt ''4'' < 1 \<or> int (length exampleDataset) < parseInt ''4''"
    unfolding exampleDataset_length by code_simp
  have d5: "\<not> regex_test [''distribution'', ''count'', ''how many'', ''breakdown'', ''summary of priority'']
      (toLowerCase ''why id 4 avg'')" by code_simp
  have h5: "\<not> regex_test [''help'', ''what can you do'', ''commands'', ''options'']
      (toLowerCase ''why id 4 avg'')" by code_simp
  have t5: "\<not> regex_test [''top risky'', ''highest priority'', ''critical'']
      (toLowerCase ''why id 4 avg'')" by code_simp
  have a5: "regex_test [''average'', ''avg'']
      (toLowerCase ''why id 4 avg'')" by code_simp
  have c5: "chat exampleDataset (Some ''why id 4 avg'') = Reply (AverageReply (4 / 3) (14 / 3))"
    using why_out_of_range_falls_through [OF ne w5 r5] d5 h5 t5 a5 exampleDataset_summary by simp
  show ?thesis
    using ne exampleDataset_length c1 c2 c3 c4 c5 exampleDataset_sorted by (simp only: simp_thms)
qed

text \<open>
  C8. The emergency pattern has no word boundaries: a text whose lower-cased form contains
  "down" anywhere, also inside a word such as "dropdown", matches it, and \<open>predictRecord\<close>
  returns the priority Critical and a confidence of at least 0.85.
\<close>

theorem down_substring_override:
  assumes "sublist ''down'' (toLowerCase text)"
  shows "regex_test emergencyWords (toLowerCase text)
    \<and> priority (predictRecord wordPunctTokenize m text) = Critical
    \<and> 85 / 100 \<le> confidence (predictRecord wordPunctTokenize m text)
    \<and> (\<forall>tok. clean tok text \<noteq> [] \<longrightarrow>
          priority (predictRecord tok m text) = Critical
          \<and> 85 / 100 \<le> confidence (predictRecord tok m text))"
proof -
  have e: "regex_test emergencyWords (toLowerCase text)"
    using assms by (simp add: regex_test_def emergencyWords_def)
  then have "clean wordPunctTokenize text \<noteq> []"
    by (rule emergency_content_nonempty)
  with e have "priority (predictRecord wordPunctTokenize m text) = Critical
    \<and> 85 / 100 \<le> confidence (predictRecord wordPunctTokenize m text)"
    by (rule override_when_content)
  moreover have "\<forall>tok. clean tok text \<noteq> [] \<longrightarrow>
          priority (predictRecord tok m text) = Critical
          \<and> 85 / 100 \<le> confidence (predictRecord tok m text)"
    by (intro allI impI) (rule override_when_content [OF e])
  ultimately show ?thesis using e by blast
qed

theorem down_substring_override_witness:
  "sublist ''down'' (toLowerCase ''Fix Dropdown menu'')
   \<and> priority (predictRecord wordPunctTokenize
        (constantModel [(Low, 9 / 10), (Medium, 1 / 10)]) ''Fix Dropdown menu'') = Critical
   \<and> 85 / 100 \<le> confidence (predictRecord wordPunctTokenize
        (constantModel [(Low, 9 / 10), (Medium, 1 / 10)]) ''Fix Dropdown menu'')"
proof -
  have h: "sublist ''down'' (toLowerCase ''Fix Dropdown menu'')"
    by (simp add: eval_defs)
  show ?thesis
    using h down_substring_override [OF h, of "constantModel [(Low, 9 / 10), (Medium, 1 / 10)]"]
    by blast
qed

text \<open>
  C9. The confidence that \<open>predictRecord\<close> returns is a multiple of 1/100: it has at most
  two decimal places (the fixed result of an empty normalised text included). When the
  normalised text is not empty it is the confidence of the classifier, after the override,
  rounded by \<open>toFixed(2)\<close>, so it is within 1/200 of that value.
\<close>

theorem confidence_two_decimals:
  "(\<exists>n::int. confidence (predictRecord tok m text) = of_int n / 100)
   \<and> (clean tok text \<noteq> [] \<longrightarrow>
        confidence (predictRecord tok m text)
          = toFixed2 (if regex_test emergencyWords (toLowerCase text)
                      then max (snd (classify m (clean tok text))) (85 / 100)
                      else snd (classify m (clean tok text)))
        \<and> \<bar>confidence (predictRecord tok m text)
             - (if regex_test emergencyWords (toLowerCase text)
                then max (snd (classify m (clean tok text))) (85 / 100)
                else snd (classify m (clean tok text)))\<bar> \<le> 1 / 200)"
proof -
  have 1: "\<exists>n::int. confidence (predictRecord tok m text) = of_int n / 100"
  proof (cases "clean tok text = []")
    case True
    then have "confidence (predictRecord tok m text) = of_int 40 / 100"
      by (simp add: predictRecord_empty defaultPrediction_def)
    then show ?thesis by blast
  next
    case False
    then show ?thesis using toFixed2_hundredth by (simp add: predictRecord_nonempty)
  qed
  have 2: "confidence (predictRecord tok m text)
          = toFixed2 (if regex_test emergencyWords (toLowerCase text)
                      then max (snd (classify m (clean tok text))) (85 / 100)
                      else snd (classify m (clean tok text)))"
    if "clean tok text \<noteq> []"
    using that by (simp add: predictRecord_nonempty)
  show ?thesis using 1 2 toFixed2_near by simp
qed

theorem confidence_two_decimals_witness:
  "clean wordPunctTokenize ''Fix typo'' \<noteq> []
   \<and> confidence (predictRecord wordPunctTokenize (constantModel [(High, 2), (Medium, 1)]) ''Fix typo'')
       = 67 / 100"
proof -
  have c: "clean wordPunctTokenize ''Fix typo'' \<noteq> []" by (simp add: eval_defs)
  have d: "\<not> regex_test emergencyWords (toLowerCase ''Fix typo'')"
    by (simp add: emergencyWords_def eval_defs)
  have e: "snd (classify (constantModel [(High, 2), (Medium, 1)]) (clean wordPunctTokenize ''Fix typo''))
      = 2 / 3"
    by (simp add: classify_def constantModel_def)
  have t: "toFixed2 (2 / 3) = 67 / 100" by code_simp
  show ?thesis
    using c d confidence_two_decimals [of wordPunctTokenize "constantModel [(High, 2), (Medium, 1)]" "''Fix typo''"]
    by (simp add: e t)
qed

text \<open>
  C10. The mapping from the complexity score to the story points is monotone: a higher
  score never yields fewer story points.
\<close>

theorem toFib_mono: "s \<le> s' \<Longrightarrow> toFib s \<le> toFib s'"
  by (simp add: toFib_cases)

theorem toFib_mono_witness:
  "(3 / 10 :: rat) \<le> 9 / 10 \<and> toFib (3 / 10) \<le> toFib (9 / 10) \<and> toFib (3 / 10) = 2 \<and> toFib (9 / 10) = 8"
  using toFib_mono [of "3 / 10" "9 / 10"] by (simp add: toFib_cases)

end
